theory Spec2Isabelle
  imports Complex_Main "HOL-Library.Word" "HOL-Library.AList"
begin

section \<open>Texts, clocks and random draws\<close>

text \<open>
  A text is a \<^typ>\<open>string\<close>: the bytes of its UTF-8 encoding, well formed, as the text
  travels on the wire. JavaScript works on the UTF-16 code units of the same text, so the
  string operations of the program are written here on the characters that the bytes
  encode: the classes \<open>\w\<close>, \<open>\d\<close> and \<open>\b\<close> of a regular expression hold ASCII
  characters only, as in JavaScript; the class \<open>\s\<close> and \<open>trim\<close> take every white-space
  character and line terminator of JavaScript; \<open>.\<close> stops at the four line terminators;
  the flag \<open>i\<close> pairs the ASCII letters only (without the flag \<open>u\<close> a character outside
  ASCII never matches an ASCII letter); \<open>charCodeAt\<close> reads the code units of the decoded
  text. Literals of the source that hold an emoji are written with the emoji's UTF-8
  bytes.

  Clock readings (\<open>Date.now()\<close>, \<open>new Date()\<close>) are integers, milliseconds since the epoch.
  The outcome of a call of \<open>Math.random()\<close> is a real number \<open>r\<close>; JavaScript promises
  \<open>0 \<le> r < 1\<close>.
\<close>

definition isUpper :: "char \<Rightarrow> bool" where
  "isUpper c = (let n = (of_char c :: int) in 65 \<le> n \<and> n \<le> 90)"

definition isLower :: "char \<Rightarrow> bool" where
  "isLower c = (let n = (of_char c :: int) in 97 \<le> n \<and> n \<le> 122)"

definition isDigit :: "char \<Rightarrow> bool" where
  "isDigit c = (let n = (of_char c :: int) in 48 \<le> n \<and> n \<le> 57)"

text \<open>The class \<open>\w\<close> of a regular expression: \<open>[A-Za-z0-9_]\<close>.\<close>

definition isWordChar :: "char \<Rightarrow> bool" where
  "isWordChar c = (isUpper c \<or> isLower c \<or> isDigit c \<or> c = CHR ''_'')"

text \<open>The characters of a text, each with the bytes that encode it: the first byte says
  how many bytes the character takes. A byte \<open>80\<close> to \<open>BF\<close> where a character should start
  (there is none in a well-formed text) stands alone.\<close>

definition sequenceLength :: "char \<Rightarrow> nat" where
  "sequenceLength c =
     (let n = (of_char c :: int)
      in if n < 0xC0 then 1 else if n < 0xE0 then 2 else if n < 0xF0 then 3 else 4)"

function characters :: "string \<Rightarrow> string list" where
  "characters [] = []"
| "characters (c # cs) =
     (c # take (sequenceLength c - 1) cs) # characters (drop (sequenceLength c - 1) cs)"
  by pat_completeness auto
termination
  by (relation "measure length") auto

text \<open>The code point that the bytes of one character encode: the payload of the first
  byte, then six bits of each byte after it. A byte that is no character by itself reads
  as U+FFFD.\<close>

definition codePoint :: "string \<Rightarrow> int" where
  "codePoint ch =
     (case ch of
        [] \<Rightarrow> 0xFFFD
      | c # cs \<Rightarrow>
          if cs = [] then (if (of_char c :: int) < 128 then of_char c else 0xFFFD)
          else foldl (\<lambda>acc b. acc * 64 + (of_char b :: int) mod 64)
                 ((of_char c :: int) mod 2 ^ (7 - length ch)) cs)"

text \<open>The UTF-16 code units of a code point: itself, or a surrogate pair.\<close>

definition utf16 :: "int \<Rightarrow> int list" where
  "utf16 cp =
     (if cp < 0x10000 then [cp]
      else [0xD800 + (cp - 0x10000) div 1024, 0xDC00 + (cp - 0x10000) mod 1024])"

text \<open>\<open>s.charCodeAt(i)\<close> for \<open>i\<close> from 0 to \<open>s.length - 1\<close>.\<close>

definition codeUnits :: "string \<Rightarrow> int list" where
  "codeUnits s = concat (map (\<lambda>ch. utf16 (codePoint ch)) (characters s))"

text \<open>The class \<open>\s\<close>, and what \<open>trim\<close> removes: the white-space characters and line
  terminators of JavaScript.\<close>

definition isWhiteSpace :: "int \<Rightarrow> bool" where
  "isWhiteSpace cp =
     ((9 \<le> cp \<and> cp \<le> 13) \<or> (0x2000 \<le> cp \<and> cp \<le> 0x200A) \<or>
      cp \<in> set [0x20, 0xA0, 0x1680, 0x2028, 0x2029, 0x202F, 0x205F, 0x3000, 0xFEFF])"

definition isSpace :: "string \<Rightarrow> bool" where
  "isSpace ch = isWhiteSpace (codePoint ch)"

text \<open>\<open>\s*\<close> at the head of \<open>s\<close>: what is left after the white space.\<close>

definition dropSpace :: "string \<Rightarrow> string" where
  "dropSpace s = concat (dropWhile isSpace (characters s))"

text \<open>What \<open>.\<close> does not match: the line terminators.\<close>

definition isLineTerminator :: "string \<Rightarrow> bool" where
  "isLineTerminator ch = (codePoint ch \<in> set [0x0A, 0x0D, 0x2028, 0x2029])"

definition hasLineTerminator :: "string \<Rightarrow> bool" where
  "hasLineTerminator s = list_ex isLineTerminator (characters s)"

text \<open>The lower-case form of an ASCII letter; the flag \<open>i\<close> of a regular expression
  pairs these letters and no others.\<close>

definition lowerChar :: "char \<Rightarrow> char" where
  "lowerChar c = (if isUpper c then char_of ((of_char c :: int) + 32) else c)"

text \<open>
  \<open>s.toLowerCase()\<close>. An ASCII capital becomes its small letter. Two characters outside
  ASCII give an ASCII letter: the Kelvin sign U+212A becomes \<open>k\<close>, and the dotted capital
  I, U+0130, becomes \<open>i\<close> followed by U+0307 (bytes \<open>CC 87\<close>). Every other character
  outside ASCII becomes characters outside ASCII; the program only looks for ASCII words
  in the result (\<open>includes\<close>), which see no difference, so these characters are left as
  they are.
\<close>

definition lowerCharacter :: "string \<Rightarrow> string" where
  "lowerCharacter ch =
     (if codePoint ch = 0x212A then ''k''
      else if codePoint ch = 0x130 then [CHR ''i'', CHR 0xCC, CHR 0x87]
      else map lowerChar ch)"

definition toLowerCase :: "string \<Rightarrow> string" where
  "toLowerCase s = concat (map lowerCharacter (characters s))"

fun startsWith :: "string \<Rightarrow> string \<Rightarrow> bool" where
  "startsWith s [] = True"
| "startsWith [] (p # ps) = False"
| "startsWith (c # cs) (p # ps) = (c = p \<and> startsWith cs ps)"

text \<open>\<open>s.includes(sub)\<close>: \<open>sub\<close> occurs in \<open>s\<close> as a contiguous substring.\<close>

fun str_includes :: "string \<Rightarrow> string \<Rightarrow> bool" where
  "str_includes [] sub = (sub = [])"
| "str_includes (c # cs) sub = (startsWith (c # cs) sub \<or> str_includes cs sub)"

text \<open>A literal of a regular expression with the flag \<open>i\<close>, matched at the head of \<open>s\<close>.\<close>

definition startsWithCI :: "string \<Rightarrow> string \<Rightarrow> bool" where
  "startsWithCI s p = startsWith (map lowerChar (take (length p) s)) (map lowerChar p)"

text \<open>\<open>s.trim()\<close>: the white space at both ends goes.\<close>

definition trim :: "string \<Rightarrow> string" where
  "trim s = concat (rev (dropWhile isSpace (rev (dropWhile isSpace (characters s)))))"

text \<open>\<open>\b\<close> between a character before (\<open>prev\<close> says whether it is a word character; there
  is none at the start of the text) and the rest \<open>s\<close> of the text.\<close>

definition wordBoundary :: "bool \<Rightarrow> string \<Rightarrow> bool" where
  "wordBoundary prev s = (prev \<noteq> (case s of [] \<Rightarrow> False | c # _ \<Rightarrow> isWordChar c))"

text \<open>\<open>/\bw\b/i\<close> matched at the head of \<open>s\<close>, for a literal \<open>w\<close> that is not empty.\<close>

definition wordAt :: "bool \<Rightarrow> string \<Rightarrow> string \<Rightarrow> bool" where
  "wordAt prev w s =
     (if startsWithCI s w
      then wordBoundary prev s \<and>
           wordBoundary (isWordChar (s ! (length w - 1))) (drop (length w) s)
      else False)"

text \<open>\<open>/\b(w1|w2|...)\b/i.test(s)\<close>: some position of \<open>s\<close> starts a match.\<close>

fun testWords :: "bool \<Rightarrow> string list \<Rightarrow> string \<Rightarrow> bool" where
  "testWords prev ws [] = False"
| "testWords prev ws (c # cs) =
     (list_ex (\<lambda>w. wordAt prev w (c # cs)) ws \<or> testWords (isWordChar c) ws cs)"

text \<open>\<open>s.replace(/\bw\b/gi, alt)\<close>: every match, left to right, is replaced by \<open>alt\<close>;
  \<open>skip\<close> counts the characters of the current match still to be dropped.\<close>

fun replaceWord :: "string \<Rightarrow> string \<Rightarrow> bool \<Rightarrow> nat \<Rightarrow> string \<Rightarrow> string" where
  "replaceWord w alt prev skip [] = []"
| "replaceWord w alt prev skip (c # cs) =
     (if 0 < skip then replaceWord w alt (isWordChar c) (skip - 1) cs
      else if wordAt prev w (c # cs)
        then alt @ replaceWord w alt (isWordChar c) (length w - 1) cs
      else c # replaceWord w alt (isWordChar c) 0 cs)"

subsection \<open>Numbers as text\<close>

definition digitChar :: "int \<Rightarrow> char" where
  "digitChar d = char_of (48 + d)"

text \<open>The decimal digits of an integer that is not negative.\<close>

function decimalDigits :: "int \<Rightarrow> string" where
  "decimalDigits n =
     (if n < 10 then [digitChar n] else decimalDigits (n div 10) @ [digitChar (n mod 10)])"
  by pat_completeness auto
termination
  by (relation "measure (\<lambda>n. nat n)") auto

declare decimalDigits.simps [simp del]

text \<open>\<open>String(i)\<close> for an integer \<open>i\<close> (below \<open>10^21\<close> in size, where JavaScript writes
  all the digits).\<close>

definition decimal :: "int \<Rightarrow> string" where
  "decimal i = (if i < 0 then CHR ''-'' # decimalDigits (- i) else decimalDigits i)"

subsection \<open>Random choice\<close>

text \<open>\<open>xs[Math.floor(r * xs.length)]\<close>; reading an array out of range gives
  \<open>undefined\<close>, here \<open>None\<close>.\<close>

definition randomIndex :: "real \<Rightarrow> nat \<Rightarrow> int" where
  "randomIndex r n = \<lfloor>r * real n\<rfloor>"

definition pickRandom :: "real \<Rightarrow> 'a list \<Rightarrow> 'a option" where
  "pickRandom r xs =
     (let i = randomIndex r (length xs)
      in if 0 \<le> i \<and> i < int (length xs) then Some (xs ! nat i) else None)"

text \<open>\<open>undefined\<close> inside a template literal or as a replacement text.\<close>

definition templateText :: "string option \<Rightarrow> string" where
  "templateText v = (case v of None \<Rightarrow> ''undefined'' | Some s \<Rightarrow> s)"

text \<open>JavaScript's truth value of a reply: \<open>null\<close>, \<open>undefined\<close> and the empty text are
  false.\<close>

definition truthy :: "string option \<Rightarrow> bool" where
  "truthy v = (case v of None \<Rightarrow> False | Some s \<Rightarrow> s \<noteq> [])"

section \<open>GeminiAI (gemini.js)\<close>

datatype error = CompletionFailed | TransportFailed | ClientNotReady

datatype language = Hindi | English | Hinglish

subsection \<open>The response cache\<close>

text \<open>
  \<open>new NodeCache({ stdTTL: 3600 })\<close>: the node-cache library. \<open>set\<close> stores the value with
  the instant it expires (the clock plus \<open>stdTTL\<close> seconds); \<open>get\<close> gives \<open>undefined\<close> for
  a key that is absent or has expired.
\<close>

type_synonym responseCache = "string \<rightharpoonup> (string \<times> int)"

definition stdTTL :: int where
  "stdTTL = 3600"

definition cacheGet :: "responseCache \<Rightarrow> int \<Rightarrow> string \<Rightarrow> string option" where
  "cacheGet c now k =
     (case c k of
        None \<Rightarrow> None
      | Some (v, expires) \<Rightarrow> if expires < now then None else Some v)"

definition cacheSet :: "responseCache \<Rightarrow> int \<Rightarrow> string \<Rightarrow> string \<Rightarrow> responseCache" where
  "cacheSet c now k v = c(k \<mapsto> (v, now + stdTTL * 1000))"

text \<open>The state of a \<open>GeminiAI\<close> object: its cache, and \<open>aiCalls\<close>, the number of
  requests it has sent to the completion service (\<open>this.model.generateContent\<close>).\<close>

record geminiAI =
  cache :: responseCache
  aiCalls :: nat

subsection \<open>hashMessage\<close>

text \<open>\<open>hash = ((hash << 5) - hash) + char; hash = hash & hash\<close>: arithmetic on 32-bit
  integers, read as a signed number at the end. \<open>char\<close> is \<open>message.charCodeAt(i)\<close>, a
  UTF-16 code unit of the message.\<close>

fun hashLoop :: "32 word \<Rightarrow> int list \<Rightarrow> 32 word" where
  "hashLoop hash [] = hash"
| "hashLoop hash (char # units) = hashLoop ((push_bit 5 hash - hash) + word_of_int char) units"

definition hashMessage :: "string \<Rightarrow> string" where
  "hashMessage message = decimal (sint (hashLoop 0 (codeUnits message)))"

subsection \<open>detectLanguage\<close>

definition hindiWords :: "string list" where
  "hindiWords = [''hai'', ''hain'', ''kya'', ''kaise'', ''kahan'', ''kab'', ''kaun'', ''main'',
     ''mein'', ''tum'', ''aap'', ''yeh'', ''woh'', ''aur'', ''ki'', ''ke'', ''ka'', ''se'', ''mera'',
     ''tera'', ''uska'', ''bhai'', ''yaar'', ''dost'']"

definition englishWords :: "string list" where
  "englishWords = [''the'', ''and'', ''you'', ''are'', ''what'', ''how'', ''where'', ''when'', ''who'',
     ''this'', ''that'', ''with'', ''have'', ''will'', ''can'', ''should'', ''would'']"

definition hinglishPatterns :: "string list" where
  "hinglishPatterns = [''bro'', ''yaar'', ''bhai'', ''dude'', ''man'', ''kya'', ''hai'', ''hain'',
     ''tum'', ''main'', ''mein'']"

definition detectLanguage :: "string \<Rightarrow> language" where
  "detectLanguage message =
     (let lowerMessage = toLowerCase message;
          hindiCount = length (filter (\<lambda>word. str_includes lowerMessage word) hindiWords);
          englishCount = length (filter (\<lambda>word. str_includes lowerMessage word) englishWords);
          hasHinglishPattern = testWords False hinglishPatterns message
      in if hindiCount > englishCount \<or> hasHinglishPattern then Hinglish
         else if englishCount > 0 then English
         else Hinglish)"

subsection \<open>cleanResponse\<close>

definition leadingPhrases :: "string list" where
  "leadingPhrases = [''Sure'', ''Okay'', ''Alright'', ''Well'', ''So'', ''Here'', ''Response:'', ''Reply:'']"

definition trailingPhrases :: "string list" where
  "trailingPhrases = [''Let me know'', ''Hope this helps'', ''Feel free to ask'', ''Any other questions'']"

text \<open>\<open>replace(/^(Sure|...|Reply:)\s*/i, '')\<close>: the first alternative that matches at the
  start goes, with the white space after it.\<close>

fun dropLeading :: "string list \<Rightarrow> string \<Rightarrow> string" where
  "dropLeading [] s = s"
| "dropLeading (p # ps) s =
     (if startsWithCI s p then dropSpace (drop (length p) s) else dropLeading ps s)"

text \<open>\<open>/\s*(Let me know|...).*$/i\<close> matched at the head of \<open>s\<close>: white space, a phrase, and
  no line terminator up to the end of the text.\<close>

definition trailerAt :: "string \<Rightarrow> bool" where
  "trailerAt s =
     (let t = dropSpace s
      in list_ex (\<lambda>p. startsWithCI t p \<and> \<not> hasLineTerminator (drop (length p) t))
           trailingPhrases)"

fun dropTrailer :: "string \<Rightarrow> string" where
  "dropTrailer [] = []"
| "dropTrailer (c # cs) = (if trailerAt (c # cs) then [] else c # dropTrailer cs)"

text \<open>\<open>replace(/[c]{2,}/g, rep)\<close>: every run of two or more \<open>c\<close> becomes \<open>rep\<close>.\<close>

function squeeze :: "char \<Rightarrow> string \<Rightarrow> string \<Rightarrow> string" where
  "squeeze c rep [] = []"
| "squeeze c rep (x # xs) =
     (if x = c \<and> startsWith xs [c] then rep @ squeeze c rep (dropWhile (\<lambda>y. y = c) xs)
      else x # squeeze c rep xs)"
  by pat_completeness auto
termination
  by (relation "measure (\<lambda>(c, rep, s). length s)")
     (auto simp: length_dropWhile_le le_imp_less_Suc)

definition cleanResponse :: "string \<Rightarrow> string" where
  "cleanResponse response =
     trim (squeeze (CHR ''.'') ''...'' (squeeze (CHR ''?'') ''?'' (squeeze (CHR ''!'') ''!''
       (dropTrailer (dropLeading leadingPhrases response)))))"

subsection \<open>addHumanVariations and addPersonalTouch\<close>

definition variations :: "language \<Rightarrow> (string \<times> string list) list" where
  "variations lang =
     (case lang of
        Hinglish \<Rightarrow>
          [(''okay'', [''ok'', ''okk'', ''theek hai'', ''achha'']),
           (''good'', [''achha'', ''badhiya'', ''nice'']),
           (''yes'', [''haan'', ''han'', ''yeah'', ''ha'']),
           (''no'', [''nahi'', ''nah'', ''naa'']),
           (''what'', [''kya'', ''kya baat'', ''what'']),
           (''how'', [''kaise'', ''kese'', ''how'']),
           (''friend'', [''yaar'', ''bro'', ''dost'', ''bhai''])]
      | English \<Rightarrow>
          [(''okay'', [''ok'', ''alright'', ''cool'']),
           (''good'', [''nice'', ''great'', ''awesome'']),
           (''yes'', [''yeah'', ''yep'', ''sure'']),
           (''no'', [''nah'', ''nope'']),
           (''friend'', [''buddy'', ''dude'', ''bro''])]
      | Hindi \<Rightarrow> [])"

text \<open>The \<open>forEach\<close> over the words of the table: \<open>rs k\<close> is the outcome of the next call of
  \<open>Math.random()\<close>, made only for a word that occurs in the response.\<close>

fun applyVariations :: "(string \<times> string list) list \<Rightarrow> (nat \<Rightarrow> real) \<Rightarrow> nat \<Rightarrow> string \<Rightarrow> string" where
  "applyVariations [] rs k response = response"
| "applyVariations ((word, alternatives) # vs) rs k response =
     (if testWords False [word] response
      then applyVariations vs rs (Suc k)
             (replaceWord word (templateText (pickRandom (rs k) alternatives)) False 0 response)
      else applyVariations vs rs k response)"

definition addHumanVariations :: "(nat \<Rightarrow> real) \<Rightarrow> string \<Rightarrow> language \<Rightarrow> string" where
  "addHumanVariations rs response lang =
     (if rs 0 < 0.2 then applyVariations (variations lang) rs 1 response else response)"

definition addPersonalTouch :: "real \<Rightarrow> real \<Rightarrow> string \<Rightarrow> string \<Rightarrow> string" where
  "addPersonalTouch r1 r2 response contactName =
     (if r1 < 0.1 \<and> contactName \<noteq> ''Friend''
      then templateText (pickRandom r2 [''yaar'', ''bro'', ''dude'', contactName]) @ '', '' @ response
      else response)"

subsection \<open>getFallbackResponse\<close>

datatype responseType = Greeting | Question | Thanks | Default

definition fallbackResponses :: "responseType \<Rightarrow> string list" where
  "fallbackResponses t =
     (case t of
        Greeting \<Rightarrow>
          [''Hey! Kya haal hai? '' @ [CHR 0xF0, CHR 0x9F, CHR 0x98, CHR 0x8A],
           ''Arre yaar, kaisa chal raha hai?'',
           ''Hello bro! Sab badiya?'',
           ''Hi! What's up? '' @ [CHR 0xF0, CHR 0x9F, CHR 0x91, CHR 0x8B]]
      | Question \<Rightarrow>
          [''Hmm, interesting question yaar!'',
           ''Good question! Let me think...'',
           ''Arre, ye toh sochna padega '' @ [CHR 0xF0, CHR 0x9F, CHR 0xA4, CHR 0x94],
           ''Wah bhai, deep question hai!'']
      | Thanks \<Rightarrow>
          [''Arre yaar, mention not! '' @ [CHR 0xF0, CHR 0x9F, CHR 0x98, CHR 0x84],
           ''Koi baat nahi bro!'',
           ''Happy to help! '' @ [CHR 0xF0, CHR 0x9F, CHR 0x91, CHR 0x8D],
           ''Always welcome dude!'']
      | Default \<Rightarrow>
          [''Haan bhai, main sun raha hun! '' @ [CHR 0xF0, CHR 0x9F, CHR 0x91, CHR 0x82],
           ''Tell me more yaar!'',
           ''Interesting! Aur bata...'',
           ''I'm listening! Go on... '' @ [CHR 0xF0, CHR 0x9F, CHR 0x98, CHR 0x8A]])"

text \<open>The message type the function detects, in the order of its \<open>if\<close> chain.\<close>

definition detectResponseType :: "string \<Rightarrow> responseType" where
  "detectResponseType userMessage =
     (let message = toLowerCase userMessage
      in if str_includes message ''hello'' \<or> str_includes message ''hi'' \<or>
            str_includes message ''hey'' \<or> str_includes message ''namaste'' then Greeting
         else if str_includes message ''?'' \<or> str_includes message ''how'' \<or>
            str_includes message ''what'' \<or> str_includes message ''kya'' \<or>
            str_includes message ''kaise'' then Question
         else if str_includes message ''thanks'' \<or> str_includes message ''thank'' \<or>
            str_includes message ''shukriya'' \<or> str_includes message ''dhanyawad'' then Thanks
         else Default)"

definition getFallbackResponse :: "real \<Rightarrow> string \<Rightarrow> string option" where
  "getFallbackResponse r userMessage = pickRandom r (fallbackResponses (detectResponseType userMessage))"

text \<open>
  The rules in the words of the spec: each category has its keywords, a category matches
  a text when one of its keywords occurs in the lower-cased text, \<open>Default\<close> matches every
  text, and the category of a text is the first one that matches in the order Greeting,
  Question, Thanks (gratitude), Default.
\<close>

definition categoryKeywords :: "responseType \<Rightarrow> string list" where
  "categoryKeywords t =
     (case t of
        Greeting \<Rightarrow> [''hello'', ''hi'', ''hey'', ''namaste'']
      | Question \<Rightarrow> [''?'', ''how'', ''what'', ''kya'', ''kaise'']
      | Thanks \<Rightarrow> [''thanks'', ''thank'', ''shukriya'', ''dhanyawad'']
      | Default \<Rightarrow> [])"

definition categoryMatches :: "responseType \<Rightarrow> string \<Rightarrow> bool" where
  "categoryMatches t text =
     (t = Default \<or> list_ex (\<lambda>k. str_includes (toLowerCase text) k) (categoryKeywords t))"

definition firstMatchingCategory :: "string \<Rightarrow> responseType option" where
  "firstMatchingCategory text = find (\<lambda>t. categoryMatches t text) [Greeting, Question, Thanks, Default]"

subsection \<open>generateResponse\<close>

text \<open>
  What one call meets outside the object: \<open>clock\<close>, the time when the cache is read;
  \<open>clockAfter\<close>, the time when the reply is stored; \<open>completion\<close>, what the completion
  service does with the request if it is asked (it throws, or it returns a text);
  \<open>draws\<close>, the outcomes of the calls of \<open>Math.random()\<close>, in order. The request is composed
  from the message, the contact's name and the chat history (\<open>createSystemPrompt\<close>,
  \<open>buildConversationContext\<close>); the service's answer to it is the input \<open>completion\<close>.
\<close>

record aiEnv =
  clock :: int
  clockAfter :: int
  completion :: "error + string"
  draws :: "nat \<Rightarrow> real"

text \<open>The path after a cache miss: the body of the \<open>try\<close> from \<open>detectLanguage\<close> on, and the
  \<open>catch\<close>.\<close>

definition requestCompletion :: "geminiAI \<Rightarrow> aiEnv \<Rightarrow> string \<Rightarrow> string \<Rightarrow> string option \<times> geminiAI" where
  "requestCompletion g e cacheKey userMessage =
     (let detectedLanguage = detectLanguage userMessage;
          g1 = g\<lparr>aiCalls := aiCalls g + 1\<rparr>
      in case completion e of
           Inl err \<Rightarrow> (getFallbackResponse (draws e 0) userMessage, g1)
         | Inr text \<Rightarrow>
             (let generatedText = addHumanVariations (draws e) (cleanResponse text) detectedLanguage
              in (Some generatedText,
                  g1\<lparr>cache := cacheSet (cache g1) (clockAfter e) cacheKey generatedText\<rparr>)))"

definition generateResponse :: "geminiAI \<Rightarrow> aiEnv \<Rightarrow> string \<Rightarrow> string \<Rightarrow> string option \<times> geminiAI" where
  "generateResponse g e userMessage contactName =
     (let cacheKey = ''response_'' @ hashMessage userMessage
      in case cacheGet (cache g) (clock e) cacheKey of
           None \<Rightarrow> requestCompletion g e cacheKey userMessage
         | Some cachedResponse \<Rightarrow>
             if cachedResponse \<noteq> []
             then (Some (addPersonalTouch (draws e 0) (draws e 1) cachedResponse contactName), g)
             else requestCompletion g e cacheKey userMessage)"

section \<open>SessionManager (sessionManager.js)\<close>

text \<open>A JavaScript \<open>Map\<close>: the entries in the order of their insertion, no key twice.
  \<open>get\<close> is \<^const>\<open>map_of\<close>, \<open>set\<close> is \<^const>\<open>AList.update\<close>, \<open>size\<close> is the length.\<close>

type_synonym ('k, 'v) jsMap = "('k \<times> 'v) list"

text \<open>The record of a session in \<open>activeSessions\<close>. \<open>otherFields\<close> holds what
  \<open>Object.assign\<close> has merged in beyond the named fields.\<close>

record sessionInfo =
  sessionId :: string
  createdAt :: int
  lastActivity :: int
  status :: string
  sessionMessageCount :: nat
  isActive :: bool
  otherFields :: "(string, string) jsMap"

definition hexDigit :: "int \<Rightarrow> char" where
  "hexDigit d = (if d < 10 then char_of (48 + d) else char_of (87 + d))"

text \<open>\<open>crypto.randomBytes(8).toString('hex')\<close>: two lower-case digits for each byte.\<close>

definition hexByte :: "8 word \<Rightarrow> string" where
  "hexByte b = [hexDigit (uint b div 16), hexDigit (uint b mod 16)]"

definition toHex :: "8 word list \<Rightarrow> string" where
  "toHex bytes = concat (map hexByte bytes)"

text \<open>\<open>timestamp\<close> is the reading of \<open>Date.now()\<close>, \<open>randomBytes\<close> what
  \<open>crypto.randomBytes(8)\<close> returned.\<close>

definition generateSessionId ::
  "(string, sessionInfo) jsMap \<Rightarrow> int \<Rightarrow> 8 word list \<Rightarrow> string \<times> (string, sessionInfo) jsMap" where
  "generateSessionId activeSessions timestamp randomBytes =
     (let newId = ''wa_'' @ decimal timestamp @ ''_'' @ toHex randomBytes;
          info = \<lparr>sessionId = newId, createdAt = timestamp, lastActivity = timestamp,
                  status = ''created'', sessionMessageCount = 0, isActive = True,
                  otherFields = []\<rparr>
      in (newId, AList.update newId info activeSessions))"

text \<open>\<open>/^wa_\d+_[a-f0-9]{16}$/.test(sessionId)\<close>.\<close>

definition isHexLower :: "char \<Rightarrow> bool" where
  "isHexLower c = (isDigit c \<or> (let n = (of_char c :: int) in 97 \<le> n \<and> n \<le> 102))"

definition isValidSessionId :: "string \<Rightarrow> bool" where
  "isValidSessionId s =
     (startsWith s ''wa_'' \<and>
      (let rest = drop 3 s;
           digits = takeWhile isDigit rest;
           suffix = dropWhile isDigit rest
       in digits \<noteq> [] \<and> startsWith suffix ''_'' \<and>
          length (drop 1 suffix) = 16 \<and> list_all isHexLower (drop 1 suffix)))"

text \<open>One property of the object \<open>additionalData\<close>, and \<open>Object.assign\<close> of them in
  order.\<close>

datatype sessionField =
    SessionId string | CreatedAt int | LastActivity int | Status string
  | MessageCount nat | IsActive bool | Other string string

fun assignField :: "sessionInfo \<Rightarrow> sessionField \<Rightarrow> sessionInfo" where
  "assignField info (SessionId v) = info\<lparr>sessionId := v\<rparr>"
| "assignField info (CreatedAt v) = info\<lparr>createdAt := v\<rparr>"
| "assignField info (LastActivity v) = info\<lparr>lastActivity := v\<rparr>"
| "assignField info (Status v) = info\<lparr>status := v\<rparr>"
| "assignField info (MessageCount v) = info\<lparr>sessionMessageCount := v\<rparr>"
| "assignField info (IsActive v) = info\<lparr>isActive := v\<rparr>"
| "assignField info (Other k v) = info\<lparr>otherFields := AList.update k v (otherFields info)\<rparr>"

definition objectAssign :: "sessionInfo \<Rightarrow> sessionField list \<Rightarrow> sessionInfo" where
  "objectAssign info additionalData = foldl assignField info additionalData"

text \<open>\<open>additionalData.status\<close>: the property \<open>status\<close> of the object, when it has one (of
  two writes of a property the later one stands).\<close>

fun statusProperty :: "sessionField list \<Rightarrow> string option" where
  "statusProperty [] = None"
| "statusProperty (f # fs) =
     (case statusProperty fs of
        Some v \<Rightarrow> Some v
      | None \<Rightarrow> (case f of Status v \<Rightarrow> Some v | _ \<Rightarrow> None))"

text \<open>Writing the sessions to their file (\<open>saveActiveSessions\<close>) catches its own errors
  and does not touch \<open>activeSessions\<close>; it is left out.\<close>

definition updateSessionStatus ::
  "(string, sessionInfo) jsMap \<Rightarrow> string \<Rightarrow> string \<Rightarrow> sessionField list \<Rightarrow> int \<Rightarrow>
   (string, sessionInfo) jsMap" where
  "updateSessionStatus activeSessions sid newStatus additionalData now =
     (case map_of activeSessions sid of
        None \<Rightarrow> activeSessions
      | Some info \<Rightarrow>
          AList.update sid
            (objectAssign (info\<lparr>status := newStatus, lastActivity := now\<rparr>) additionalData)
            activeSessions)"

definition removeSession ::
  "(string, sessionInfo) jsMap \<Rightarrow> string \<Rightarrow> int \<Rightarrow> (string, sessionInfo) jsMap" where
  "removeSession activeSessions sid now =
     (case map_of activeSessions sid of
        None \<Rightarrow> activeSessions
      | Some info \<Rightarrow>
          AList.update sid (info\<lparr>isActive := False, status := ''destroyed'', lastActivity := now\<rparr>)
            activeSessions)"

section \<open>What a handler meets outside the object\<close>

text \<open>
  An inbound message of the transport: \<open>sender\<close> is \<open>message.from\<close>.
\<close>

record inboundMessage =
  sender :: string
  fromMe :: bool
  body :: string

record contactInfo =
  pushname :: "string option"
  cname :: "string option"

text \<open>
  The outcomes of the calls a handler makes while it handles one message: \<open>contact\<close> is
  what \<open>message.getContact()\<close> resolves to (\<open>None\<close>: it rejects); \<open>ai\<close> is the completion
  service, the clock and the random draws of \<^typ>\<open>aiEnv\<close>; \<open>presenceOk\<close> says that the
  calls that show the typing indicator succeed, \<open>clearOk\<close> that the one clearing it does,
  \<open>sendOk\<close> that the transport accepts the reply, \<open>fallbackSendOk\<close> that it accepts the
  fallback reply; \<open>fallbackDraw\<close> is the outcome of \<open>Math.random()\<close> in the choice of the
  fallback reply. The typing delay (\<open>calculateTypingDelay\<close>, \<open>sleep\<close>, \<open>simulateTyping\<close>)
  passes time and changes no state; it is left out.
\<close>

record env =
  contact :: "contactInfo option"
  ai :: aiEnv
  presenceOk :: bool
  clearOk :: bool
  sendOk :: bool
  fallbackDraw :: real
  fallbackSendOk :: bool

text \<open>\<open>a || b || c\<close> on names: the first that is neither missing nor empty.\<close>

definition firstTruthy :: "string option \<Rightarrow> string option \<Rightarrow> string \<Rightarrow> string" where
  "firstTruthy a b c =
     (if truthy a then templateText a else if truthy b then templateText b else c)"

section \<open>WhatsAppBot (whatsapp-bot.js)\<close>

record botConfig =
  maxHistoryLength :: nat
  maxMessagesPerMinute :: int
  botName :: string

definition defaultConfig :: botConfig where
  "defaultConfig = \<lparr>maxHistoryLength = 10, maxMessagesPerMinute = 2, botName = ''AI Assistant''\<rparr>"

text \<open>An entry of the chat history: \<open>entryType\<close> is \<open>'received'\<close> or \<open>'sent'\<close>, \<open>entryPeer\<close> the
  field \<open>from\<close> or \<open>to\<close>.\<close>

record historyEntry =
  entryType :: string
  entryMessage :: string
  entryTimestamp :: int
  entryPeer :: string

record socketEvent =
  eventFrom :: string
  eventBody :: string
  eventTimestamp :: int
  eventFromMe :: bool

text \<open>The state of the bot. \<open>hasModel\<close>: \<open>this.model\<close> is set; \<open>socket\<close>: \<open>this.socket\<close> is set;
  \<open>emitted\<close>: the \<open>'message'\<close> events sent to the socket; \<open>outbox\<close>: the replies the transport
  has accepted (\<open>message.reply\<close>), with the chat they went to.\<close>

record whatsAppBot =
  config :: botConfig
  hasModel :: bool
  socket :: bool
  isInitialized :: bool
  isReady :: bool
  messageCount :: nat
  chatHistory :: "(string, historyEntry list) jsMap"
  rateLimiter :: "(string, int list) jsMap"
  outbox :: "(string \<times> string) list"
  emitted :: "socketEvent list"

text \<open>\<open>m.get(k) || []\<close>, and the array of a key after \<open>if (!m.has(k)) m.set(k, [])\<close>.\<close>

definition entriesOf :: "('k, 'v list) jsMap \<Rightarrow> 'k \<Rightarrow> 'v list" where
  "entriesOf m k = (case map_of m k of None \<Rightarrow> [] | Some xs \<Rightarrow> xs)"

definition addToHistory :: "whatsAppBot \<Rightarrow> string \<Rightarrow> historyEntry \<Rightarrow> whatsAppBot" where
  "addToHistory b contactId messageData =
     (let history = entriesOf (chatHistory b) contactId @ [messageData];
          kept = (if length history > maxHistoryLength (config b) then tl history else history)
      in b\<lparr>chatHistory := AList.update contactId kept (chatHistory b)\<rparr>)"

definition checkRateLimit :: "whatsAppBot \<Rightarrow> string \<Rightarrow> int \<Rightarrow> bool \<times> whatsAppBot" where
  "checkRateLimit b contactId now =
     (let windowMs = 60 * 1000;
          requests = entriesOf (rateLimiter b) contactId;
          validRequests = filter (\<lambda>time. now - time < windowMs) requests
      in (int (length validRequests) < maxMessagesPerMinute (config b),
          b\<lparr>rateLimiter := AList.update contactId validRequests (rateLimiter b)\<rparr>))"

definition updateRateLimit :: "whatsAppBot \<Rightarrow> string \<Rightarrow> int \<Rightarrow> whatsAppBot" where
  "updateRateLimit b contactId now =
     b\<lparr>rateLimiter := AList.update contactId (entriesOf (rateLimiter b) contactId @ [now])
          (rateLimiter b)\<rparr>"

text \<open>\<open>detectLanguage\<close> of the bot, which decides by script: \<open>/[\u0900-\u097F]/\<close> (some
  character of the text is a Devanagari character), then \<open>/^[a-zA-Z0-9\s.,!?'"()-]+$/\<close>
  (the text is not empty and every character of it is in the class).\<close>

definition isDevanagari :: "string \<Rightarrow> bool" where
  "isDevanagari ch = (0x900 \<le> codePoint ch \<and> codePoint ch \<le> 0x97F)"

definition hindiPattern :: "string \<Rightarrow> bool" where
  "hindiPattern text = list_ex isDevanagari (characters text)"

definition isEnglishChar :: "string \<Rightarrow> bool" where
  "isEnglishChar ch =
     (isSpace ch \<or>
      (case ch of
         [c] \<Rightarrow> isUpper c \<or> isLower c \<or> isDigit c \<or>
                c \<in> set [CHR ''.'', CHR '','', CHR ''!'', CHR ''?'', CHR 0x27, CHR 0x22, CHR ''('',
                         CHR '')'', CHR ''-'']
       | _ \<Rightarrow> False))"

definition englishPattern :: "string \<Rightarrow> bool" where
  "englishPattern text = (text \<noteq> [] \<and> list_all isEnglishChar (characters text))"

text \<open>The name \<open>detectLanguage\<close> is taken by the classifier of \<open>GeminiAI\<close>.\<close>

definition botDetectLanguage :: "string \<Rightarrow> language" where
  "botDetectLanguage text =
     (if hindiPattern text then Hindi
      else if englishPattern text then English
      else Hinglish)"

definition speakerLabels :: "string list" where
  "speakerLabels = [''You:'', ''Me:'', ''AI:'', ''Bot:'', ''Assistant:'']"

text \<open>\<open>replace(/^(You:|Me:|AI:|Bot:|Assistant:)/i, '')\<close>.\<close>

fun dropLabel :: "string list \<Rightarrow> string \<Rightarrow> string" where
  "dropLabel [] s = s"
| "dropLabel (p # ps) s = (if startsWithCI s p then drop (length p) s else dropLabel ps s)"

definition isQuote :: "char \<Rightarrow> bool" where
  "isQuote c = (c = CHR 0x22 \<or> c = CHR 0x27)"

text \<open>\<open>replace(/^["']|["']$/g, '')\<close>: a quote at the start goes, and a quote at the end of
  what is left.\<close>

definition stripQuotes :: "string \<Rightarrow> string" where
  "stripQuotes s =
     (let s1 = (case s of [] \<Rightarrow> [] | c # cs \<Rightarrow> if isQuote c then cs else s)
      in if s1 \<noteq> [] \<and> isQuote (last s1) then butlast s1 else s1)"

definition cleanAIResponse :: "string \<Rightarrow> string" where
  "cleanAIResponse response = trim (stripQuotes (dropLabel speakerLabels response))"

text \<open>\<open>getAIResponse\<close>: \<open>null\<close> (here \<open>None\<close>) when the model is missing or the completion
  service throws. The prompt (\<open>detectLanguage\<close>, \<open>buildAIPrompt\<close>) goes to the service, whose
  answer is the input \<open>completion\<close>.\<close>

definition getAIResponse :: "whatsAppBot \<Rightarrow> env \<Rightarrow> string \<Rightarrow> string option" where
  "getAIResponse b e messageText =
     (if \<not> hasModel b then None
      else case completion (ai e) of
             Inl err \<Rightarrow> None
           | Inr aiReply \<Rightarrow> Some (cleanAIResponse aiReply))"

definition fallbacks :: "string list" where
  "fallbacks =
     [''Sorry yaar, thoda issue ho gaya. Kya keh rahe the tum? '' @ [CHR 0xF0, CHR 0x9F, CHR 0xA4, CHR 0x94],
      ''Oops! Kuch technical problem hai. Dobara try karo '' @ [CHR 0xF0, CHR 0x9F, CHR 0x98, CHR 0x85],
      ''Hmm, samajh nahi aaya. Thoda aur detail mein batao? '' @
        [CHR 0xF0, CHR 0x9F, CHR 0xA4, CHR 0xB7, CHR 0xE2, CHR 0x80, CHR 0x8D, CHR 0xE2, CHR 0x99,
         CHR 0x82, CHR 0xEF, CHR 0xB8, CHR 0x8F],
      ''Sorry bro, connection issue. Kya bol rahe the? '' @ [CHR 0xF0, CHR 0x9F, CHR 0x93, CHR 0xB1],
      ''Arre yaar, kuch gadbad hai. Phir se message karo '' @ [CHR 0xF0, CHR 0x9F, CHR 0x94, CHR 0x84]]"

definition botFallbackResponse :: "real \<Rightarrow> string option" where
  "botFallbackResponse r = pickRandom r fallbacks"

text \<open>The \<open>catch\<close> of \<open>generateAndSendResponse\<close>: a fallback reply, kept in the history when
  the transport accepts it.\<close>

definition sendFallback :: "whatsAppBot \<Rightarrow> env \<Rightarrow> string \<Rightarrow> string \<Rightarrow> whatsAppBot" where
  "sendFallback b e contactId contactName =
     (case botFallbackResponse (fallbackDraw e) of
        None \<Rightarrow> b
      | Some fallbackResponse \<Rightarrow>
          if fallbackSendOk e
          then addToHistory (b\<lparr>outbox := outbox b @ [(contactId, fallbackResponse)]\<rparr>) contactId
                 \<lparr>entryType = ''sent'', entryMessage = fallbackResponse,
                  entryTimestamp = clockAfter (ai e), entryPeer = contactName\<rparr>
          else b)"

definition emitMessage :: "whatsAppBot \<Rightarrow> socketEvent \<Rightarrow> whatsAppBot" where
  "emitMessage b ev = (if socket b then b\<lparr>emitted := emitted b @ [ev]\<rparr> else b)"

definition generateAndSendResponse ::
  "whatsAppBot \<Rightarrow> env \<Rightarrow> inboundMessage \<Rightarrow> string \<Rightarrow> string \<Rightarrow> whatsAppBot" where
  "generateAndSendResponse b e message contactId contactName =
     (if \<not> presenceOk e then sendFallback b e contactId contactName
      else case getAIResponse b e (body message) of
             None \<Rightarrow> b
           | Some aiResponse \<Rightarrow>
               if aiResponse = [] then b
               else if \<not> clearOk e \<or> \<not> sendOk e then sendFallback b e contactId contactName
               else
                 (let b1 = b\<lparr>outbox := outbox b @ [(contactId, aiResponse)]\<rparr>;
                      b2 = addToHistory b1 contactId
                             \<lparr>entryType = ''sent'', entryMessage = aiResponse,
                              entryTimestamp = clockAfter (ai e), entryPeer = contactName\<rparr>;
                      b3 = updateRateLimit b2 contactId (clockAfter (ai e))
                  in emitMessage b3
                       \<lparr>eventFrom = botName (config b3), eventBody = aiResponse,
                        eventTimestamp = clockAfter (ai e), eventFromMe = True\<rparr>))"

definition handleIncomingMessage :: "whatsAppBot \<Rightarrow> env \<Rightarrow> inboundMessage \<Rightarrow> whatsAppBot" where
  "handleIncomingMessage b e message =
     (if sender message = ''status@broadcast'' then b
      else if fromMe message then b
      else case contact e of
             None \<Rightarrow> b
           | Some c \<Rightarrow>
               (let contactName = firstTruthy (pushname c) (cname c) (sender message);
                    contactId = sender message;
                    b1 = b\<lparr>messageCount := messageCount b + 1\<rparr>;
                    (admitted, b2) = checkRateLimit b1 contactId (clock (ai e))
                in if \<not> admitted then b2
                   else
                     (let b3 = addToHistory b2 contactId
                                 \<lparr>entryType = ''received'', entryMessage = body message,
                                  entryTimestamp = clock (ai e), entryPeer = contactName\<rparr>;
                          b4 = emitMessage b3
                                 \<lparr>eventFrom = contactName, eventBody = body message,
                                  eventTimestamp = clock (ai e), eventFromMe = False\<rparr>
                      in generateAndSendResponse b4 e message contactId contactName)))"

record botStatus =
  connected :: bool
  initialized :: bool
  statusMessageCount :: nat
  activeChats :: nat
  rateLimitedContacts :: nat

definition getStatus :: "whatsAppBot \<Rightarrow> botStatus" where
  "getStatus b =
     \<lparr>connected = isReady b, initialized = isInitialized b, statusMessageCount = messageCount b,
      activeChats = length (chatHistory b), rateLimitedContacts = length (rateLimiter b)\<rparr>"

section \<open>WhatsAppManager (whatsapp.js)\<close>

record messageStats =
  received :: nat
  sent :: nat
  errors :: nat

record chatTurn =
  turnMessage :: string
  isBot :: bool
  turnTimestamp :: int

text \<open>The state of a manager. \<open>client\<close>: \<open>this.client\<close> is set; \<open>managerEmitted\<close>: the events
  given to \<open>emitToSocket\<close>, with the text they carry; \<open>managerOutbox\<close>: the messages the
  transport has accepted (\<open>client.sendMessage\<close>), with the chat they went to.\<close>

record whatsAppManager =
  managerSessionId :: string
  client :: bool
  managerReady :: bool
  managerStatus :: string
  messageStats :: messageStats
  managerHistory :: "(string, chatTurn list) jsMap"
  geminiAI :: geminiAI
  managerOutbox :: "(string \<times> string) list"
  managerEmitted :: "(string \<times> string) list"

definition updateChatHistory :: "whatsAppManager \<Rightarrow> string \<Rightarrow> string \<Rightarrow> bool \<Rightarrow> int \<Rightarrow> whatsAppManager" where
  "updateChatHistory m contactId message fromBot now =
     (let history = entriesOf (managerHistory m) contactId @
                      [\<lparr>turnMessage = message, isBot = fromBot, turnTimestamp = now\<rparr>];
          kept = (if length history > 10 then tl history else history)
      in m\<lparr>managerHistory := AList.update contactId kept (managerHistory m)\<rparr>)"

definition fallbackMessages :: "string list" where
  "fallbackMessages =
     [''Sorry yaar, thoda issue ho gaya. Tum bolo kya chahiye?'',
      ''Arre yar, kuch technical problem aa gaya. Main thodi der mein reply karunga!'',
      ''Bhai, abhi thoda busy hun. Baad mein baat karte hain!'',
      ''Hmm, samajh nahi aaya. Phir se bologe?'',
      ''Thoda internet slow hai, baad mein reply karunga bro!'']"

definition getFallbackMessage :: "real \<Rightarrow> string option" where
  "getFallbackMessage r = pickRandom r fallbackMessages"

text \<open>\<open>generateAIResponse\<close>: \<open>generateResponse\<close> of the manager's \<open>GeminiAI\<close>, which catches the
  failure of the completion service itself.\<close>

definition generateAIResponse ::
  "whatsAppManager \<Rightarrow> env \<Rightarrow> string \<Rightarrow> string \<Rightarrow> string option \<times> whatsAppManager" where
  "generateAIResponse m e userMessage contactName =
     (let (response, g) = generateResponse (geminiAI m) (ai e) userMessage contactName
      in (response, m\<lparr>geminiAI := g\<rparr>))"

text \<open>\<open>sendMessage\<close> throws when the client is not ready or the transport rejects.\<close>

definition sendMessage :: "whatsAppManager \<Rightarrow> bool \<Rightarrow> string \<Rightarrow> string \<Rightarrow> error + whatsAppManager" where
  "sendMessage m accepted recipient message =
     (if \<not> managerReady m then Inl ClientNotReady
      else if \<not> accepted then Inl TransportFailed
      else Inr (m\<lparr>managerOutbox := managerOutbox m @ [(recipient, message)]\<rparr>))"

text \<open>The \<open>catch\<close> of the manager's handler.\<close>

definition recover :: "whatsAppManager \<Rightarrow> env \<Rightarrow> string \<Rightarrow> whatsAppManager" where
  "recover m e recipient =
     (let m1 = m\<lparr>messageStats := (messageStats m)\<lparr>errors := errors (messageStats m) + 1\<rparr>\<rparr>
      in case getFallbackMessage (fallbackDraw e) of
           None \<Rightarrow> m1
         | Some fallbackMessage \<Rightarrow>
             (case sendMessage m1 (fallbackSendOk e) recipient fallbackMessage of
                Inl err \<Rightarrow> m1
              | Inr m2 \<Rightarrow> m2))"

definition managerHandleIncomingMessage ::
  "whatsAppManager \<Rightarrow> env \<Rightarrow> inboundMessage \<Rightarrow> whatsAppManager" where
  "managerHandleIncomingMessage m e message =
     (if fromMe message \<or> sender message = ''status@broadcast'' then m
      else
        (let m1 = m\<lparr>messageStats := (messageStats m)\<lparr>received := received (messageStats m) + 1\<rparr>,
                    managerEmitted := managerEmitted m @ [(''message_received'', body message)]\<rparr>
         in case contact e of
              None \<Rightarrow> recover m1 e (sender message)
            | Some c \<Rightarrow>
                (let contactName = firstTruthy (cname c) (pushname c) (sender message);
                     m2 = updateChatHistory m1 (sender message) (body message) False (clock (ai e));
                     (aiResponse, m3) = generateAIResponse m2 e (body message) contactName
                 in case aiResponse of
                      None \<Rightarrow> m3
                    | Some reply \<Rightarrow>
                        if reply = [] then m3
                        else (case sendMessage m3 (sendOk e) (sender message) reply of
                                Inl err \<Rightarrow> recover m3 e (sender message)
                              | Inr m4 \<Rightarrow>
                                  updateChatHistory m4 (sender message) reply True
                                    (clockAfter (ai e))))))"

text \<open>\<open>destroy\<close>: \<open>destroyOk\<close> says that \<open>client.destroy()\<close> succeeds; when it throws, the
  error is thrown on and nothing has changed.\<close>

definition destroy :: "whatsAppManager \<Rightarrow> bool \<Rightarrow> error + whatsAppManager" where
  "destroy m destroyOk =
     (if client m \<and> \<not> destroyOk then Inl TransportFailed
      else Inr (m\<lparr>client := False, managerReady := False, managerStatus := ''destroyed'',
                 managerHistory := []\<rparr>))"

section \<open>Runs of calls and sample states\<close>

text \<open>A sequence of appends to the history of one contact, in the order of arrival.\<close>

fun addAllToHistory :: "whatsAppBot \<Rightarrow> string \<Rightarrow> historyEntry list \<Rightarrow> whatsAppBot" where
  "addAllToHistory b contactId [] = b"
| "addAllToHistory b contactId (x # xs) = addAllToHistory (addToHistory b contactId x) contactId xs"

fun updateAllChatHistory :: "whatsAppManager \<Rightarrow> string \<Rightarrow> (string \<times> bool \<times> int) list \<Rightarrow> whatsAppManager" where
  "updateAllChatHistory m contactId [] = m"
| "updateAllChatHistory m contactId ((message, fromBot, now) # xs) =
     updateAllChatHistory (updateChatHistory m contactId message fromBot now) contactId xs"

definition turnOf :: "string \<times> bool \<times> int \<Rightarrow> chatTurn" where
  "turnOf x = (case x of (message, fromBot, now) \<Rightarrow> \<lparr>turnMessage = message, isBot = fromBot, turnTimestamp = now\<rparr>)"

text \<open>A bot that is connected and has a model, with the configuration of the constructor
  and no message handled yet, and a manager that is ready, with an empty cache.\<close>

definition freshBot :: whatsAppBot where
  "freshBot =
     \<lparr>config = defaultConfig, hasModel = True, socket = False, isInitialized = True,
      isReady = True, messageCount = 0, chatHistory = [], rateLimiter = [], outbox = [],
      emitted = []\<rparr>"

definition freshManager :: whatsAppManager where
  "freshManager =
     \<lparr>managerSessionId = ''wa_1700000000000_00112233445566ff'', client = True,
      managerReady = True, managerStatus = ''ready'',
      messageStats = \<lparr>received = 0, sent = 0, errors = 0\<rparr>, managerHistory = [],
      geminiAI = \<lparr>cache = Map.empty, aiCalls = 0\<rparr>, managerOutbox = [], managerEmitted = []\<rparr>"

definition receivedAt :: "int \<Rightarrow> historyEntry" where
  "receivedAt t = \<lparr>entryType = ''received'', entryMessage = ''hi'', entryTimestamp = t, entryPeer = ''Asha''\<rparr>"

text \<open>A bot that holds three admissions of the contact \<open>c1\<close>, one of them old.\<close>

definition busyBot :: whatsAppBot where
  "busyBot = freshBot\<lparr>rateLimiter := [(''c1'', [1000, 90000, 95000])]\<rparr>"

text \<open>Sample messages and surroundings: a contact called Asha; a call at the instant
  \<open>t\<close> whose completion takes two seconds and whose random draws all give \<open>r\<close>.\<close>

definition messageFrom :: "string \<Rightarrow> string \<Rightarrow> inboundMessage" where
  "messageFrom c text = \<lparr>sender = c, fromMe = False, body = text\<rparr>"

definition asha :: contactInfo where
  "asha = \<lparr>pushname = Some ''Asha'', cname = None\<rparr>"

definition aiEnvAt :: "int \<Rightarrow> error + string \<Rightarrow> real \<Rightarrow> aiEnv" where
  "aiEnvAt t outcome r =
     \<lparr>clock = t, clockAfter = t + 2000, completion = outcome, draws = (\<lambda>k. r)\<rparr>"

definition envWith :: "error + string \<Rightarrow> real \<Rightarrow> env" where
  "envWith outcome r =
     \<lparr>contact = Some asha, ai = aiEnvAt 100000 outcome r,
      presenceOk = True, clearOk = True, sendOk = True, fallbackDraw = r, fallbackSendOk = True\<rparr>"

text \<open>A registry that holds one session, already destroyed.\<close>

definition destroyedInfo :: sessionInfo where
  "destroyedInfo =
     \<lparr>sessionId = ''wa_1700000000000_00112233445566ff'', createdAt = 1700000000000,
      lastActivity = 1700000005000, status = ''destroyed'', sessionMessageCount = 3,
      isActive = False, otherFields = []\<rparr>"

definition destroyedSessions :: "(string, sessionInfo) jsMap" where
  "destroyedSessions = [(''wa_1700000000000_00112233445566ff'', destroyedInfo)]"

section \<open>Lemmas on the helpers\<close>

lemma pickRandom_in_pool:
  assumes "0 \<le> r" "r < 1" "xs \<noteq> []"
  shows "\<exists>x. pickRandom r xs = Some x \<and> x \<in> set xs"
proof -
  let ?n = "length xs"
  have n: "0 < real ?n" using assms(3) by simp
  have lo: "0 \<le> r * real ?n" using assms(1) by simp
  have hi: "r * real ?n < real ?n" using assms(2) n by simp
  have i0: "0 \<le> \<lfloor>r * real ?n\<rfloor>" using lo by simp
  have i1: "\<lfloor>r * real ?n\<rfloor> < int ?n" using hi by (simp add: floor_less_iff)
  have "nat \<lfloor>r * real ?n\<rfloor> < ?n" using i0 i1 by linarith
  then have m: "xs ! nat \<lfloor>r * real ?n\<rfloor> \<in> set xs" by simp
  have "pickRandom r xs = Some (xs ! nat \<lfloor>r * real ?n\<rfloor>)"
    using i0 i1 by (simp add: pickRandom_def randomIndex_def)
  then show ?thesis using m by simp
qed

section \<open>The bounded chat history\<close>

lemma entriesOf_update: "entriesOf (AList.update k v m) k = v"
  by (simp add: entriesOf_def update_conv')


lemma cap_step:
  assumes "h = drop (length t - H) t"
  shows "(if length (h @ [x]) > H then tl (h @ [x]) else h @ [x]) = drop (length (t @ [x]) - H) (t @ [x])"
proof (cases "length t < H")
  case True
  then show ?thesis using assms by simp
next
  case False
  then have len: "length h = H" using assms by simp
  show ?thesis
  proof (cases "H = 0")
    case True
    then show ?thesis using assms by simp
  next
    case nz: False
    then have "h \<noteq> []" using len by auto
    then have "tl (h @ [x]) = tl h @ [x]" by simp
    moreover have "tl h = drop (Suc (length t - H)) t" using assms by (simp add: drop_Suc tl_drop)
    moreover have "Suc (length t - H) = length (t @ [x]) - H" using False by simp
    moreover have "length (t @ [x]) - H \<le> length t" using nz by simp
    ultimately show ?thesis using len by simp
  qed
qed

lemma addToHistory_entries:
  "entriesOf (chatHistory (addToHistory b c x)) c =
     (if length (entriesOf (chatHistory b) c @ [x]) > maxHistoryLength (config b)
      then tl (entriesOf (chatHistory b) c @ [x]) else entriesOf (chatHistory b) c @ [x])"
  by (simp add: addToHistory_def Let_def entriesOf_update)

lemma addToHistory_config: "config (addToHistory b c x) = config b"
  by (simp add: addToHistory_def Let_def)

lemma addAllToHistory_last:
  "entriesOf (chatHistory b) c = drop (length t - maxHistoryLength (config b)) t \<Longrightarrow>
   entriesOf (chatHistory (addAllToHistory b c xs)) c =
     drop (length (t @ xs) - maxHistoryLength (config b)) (t @ xs)"
proof (induction xs arbitrary: b t)
  case Nil
  then show ?case by simp
next
  case (Cons x xs)
  have "entriesOf (chatHistory (addToHistory b c x)) c =
          drop (length (t @ [x]) - maxHistoryLength (config (addToHistory b c x))) (t @ [x])"
    unfolding addToHistory_entries addToHistory_config by (rule cap_step) (rule Cons.prems)
  from Cons.IH [OF this] show ?case by (simp add: addToHistory_config)
qed

lemma updateChatHistory_entries:
  "entriesOf (managerHistory (updateChatHistory m c message fromBot now)) c =
     (if length (entriesOf (managerHistory m) c @ [turnOf (message, fromBot, now)]) > 10
      then tl (entriesOf (managerHistory m) c @ [turnOf (message, fromBot, now)])
      else entriesOf (managerHistory m) c @ [turnOf (message, fromBot, now)])"
  by (simp add: updateChatHistory_def Let_def entriesOf_update turnOf_def)

lemma updateAllChatHistory_last:
  "entriesOf (managerHistory m) c = drop (length t - 10) t \<Longrightarrow>
   entriesOf (managerHistory (updateAllChatHistory m c xs)) c =
     drop (length (t @ map turnOf xs) - 10) (t @ map turnOf xs)"
proof (induction xs arbitrary: m t)
  case Nil
  then show ?case by simp
next
  case (Cons x xs)
  obtain message fromBot now where x: "x = (message, fromBot, now)" by (cases x) auto
  have "entriesOf (managerHistory (updateChatHistory m c message fromBot now)) c =
          drop (length (t @ [turnOf x]) - 10) (t @ [turnOf x])"
    unfolding updateChatHistory_entries x by (rule cap_step) (rule Cons.prems)
  from Cons.IH [OF this] show ?case by (simp add: x)
qed

text \<open>
  Claim C5. Take a contact whose stored history is within the cap (as every history is
  that the store has built itself, the empty one included). After more appends than the
  cap \<open>H\<close> (\<open>maxHistoryLength\<close>, 10 in the bot's configuration; the constant 10 in the
  manager) the stored history is exactly the last \<open>H\<close> appended entries in the order of
  their arrival, so it has \<open>H\<close> entries, and after any single append the history has at
  most \<open>H\<close> entries. This holds for \<open>addToHistory\<close> of the bot and for
  \<open>updateChatHistory\<close> of the manager.
\<close>

theorem history_keeps_most_recent:
  assumes "length (entriesOf (chatHistory b) c) \<le> maxHistoryLength (config b)"
    and "maxHistoryLength (config b) < length xs"
    and "length (entriesOf (managerHistory m) c) \<le> 10"
    and "10 < length ys"
  shows "entriesOf (chatHistory (addAllToHistory b c xs)) c =
           drop (length xs - maxHistoryLength (config b)) xs
       \<and> length (entriesOf (chatHistory (addAllToHistory b c xs)) c) = maxHistoryLength (config b)
       \<and> length (entriesOf (chatHistory (addToHistory b c x)) c) \<le> maxHistoryLength (config b)
       \<and> entriesOf (managerHistory (updateAllChatHistory m c ys)) c =
           map turnOf (drop (length ys - 10) ys)
       \<and> length (entriesOf (managerHistory (updateAllChatHistory m c ys)) c) = 10
       \<and> length (entriesOf (managerHistory (updateChatHistory m c message fromBot now)) c) \<le> 10"
proof -
  let ?H = "maxHistoryLength (config b)"
  let ?h = "entriesOf (chatHistory b) c"
  have "?h = drop (length ?h - ?H) ?h" using assms(1) by simp
  from addAllToHistory_last [OF this]
  have "entriesOf (chatHistory (addAllToHistory b c xs)) c = drop (length (?h @ xs) - ?H) (?h @ xs)" .
  also have "\<dots> = drop (length xs - ?H) xs" using assms(1,2) by simp
  finally have A: "entriesOf (chatHistory (addAllToHistory b c xs)) c = drop (length xs - ?H) xs" .
  have B: "length (entriesOf (chatHistory (addAllToHistory b c xs)) c) = ?H"
    unfolding A using assms(2) by simp
  have C: "length (entriesOf (chatHistory (addToHistory b c x)) c) \<le> ?H"
    unfolding addToHistory_entries using assms(1) by simp
  let ?g = "entriesOf (managerHistory m) c"
  have "?g = drop (length ?g - 10) ?g" using assms(3) by simp
  from updateAllChatHistory_last [OF this]
  have "entriesOf (managerHistory (updateAllChatHistory m c ys)) c =
          drop (length (?g @ map turnOf ys) - 10) (?g @ map turnOf ys)" .
  also have "\<dots> = map turnOf (drop (length ys - 10) ys)" using assms(3,4) by (simp add: drop_map)
  finally have D: "entriesOf (managerHistory (updateAllChatHistory m c ys)) c =
                     map turnOf (drop (length ys - 10) ys)" .
  have E: "length (entriesOf (managerHistory (updateAllChatHistory m c ys)) c) = 10"
    unfolding D using assms(4) by simp
  have F: "length (entriesOf (managerHistory (updateChatHistory m c message fromBot now)) c) \<le> 10"
    unfolding updateChatHistory_entries using assms(3) by simp
  show ?thesis using A B C D E F by blast
qed

theorem history_keeps_most_recent_witness:
  "length (entriesOf (chatHistory freshBot) ''c1'') \<le> maxHistoryLength (config freshBot)
   \<and> maxHistoryLength (config freshBot) < length (map receivedAt [1, 2, 3, 4, 5, 6, 7, 8, 9, 10, 11])
   \<and> entriesOf (chatHistory (addAllToHistory freshBot ''c1''
        (map receivedAt [1, 2, 3, 4, 5, 6, 7, 8, 9, 10, 11]))) ''c1''
      = map receivedAt [2, 3, 4, 5, 6, 7, 8, 9, 10, 11]
   \<and> entriesOf (managerHistory (updateAllChatHistory freshManager ''c1''
        (map (\<lambda>t. (''hi'', False, t)) [1, 2, 3, 4, 5, 6, 7, 8, 9, 10, 11]))) ''c1''
      = map (\<lambda>t. turnOf (''hi'', False, t)) [2, 3, 4, 5, 6, 7, 8, 9, 10, 11]"
proof -
  have h1: "length (entriesOf (chatHistory freshBot) ''c1'') \<le> maxHistoryLength (config freshBot)"
    by (simp add: freshBot_def entriesOf_def)
  have h2: "maxHistoryLength (config freshBot) < length (map receivedAt [1, 2, 3, 4, 5, 6, 7, 8, 9, 10, 11])"
    by (simp add: freshBot_def defaultConfig_def)
  have h3: "length (entriesOf (managerHistory freshManager) ''c1'') \<le> 10"
    by (simp add: freshManager_def entriesOf_def)
  have h4: "10 < length (map (\<lambda>t::int. (''hi'', False, t)) [1, 2, 3, 4, 5, 6, 7, 8, 9, 10, 11])"
    by simp
  have c: "maxHistoryLength (config freshBot) = 10"
    by (simp add: freshBot_def defaultConfig_def)
  show ?thesis
    using h1 h2 history_keeps_most_recent [OF h1 h2 h3 h4] by (simp add: c)
qed

section \<open>The bot's message handler\<close>

lemma checkRateLimit_fst:
  "fst (checkRateLimit b c now) =
     (int (length (filter (\<lambda>time. now - time < 60000) (entriesOf (rateLimiter b) c)))
        < maxMessagesPerMinute (config b))"
  by (simp add: checkRateLimit_def Let_def)

lemma checkRateLimit_snd:
  "snd (checkRateLimit b c now) =
     b\<lparr>rateLimiter := AList.update c (filter (\<lambda>time. now - time < 60000) (entriesOf (rateLimiter b) c))
          (rateLimiter b)\<rparr>"
  by (simp add: checkRateLimit_def Let_def)

lemma checkRateLimit_messageCount [simp]:
  "fst (checkRateLimit (b\<lparr>messageCount := n\<rparr>) c now) = fst (checkRateLimit b c now)"
  by (simp add: checkRateLimit_fst)

lemma addToHistory_fields [simp]:
  "rateLimiter (addToHistory b c x) = rateLimiter b"
  "messageCount (addToHistory b c x) = messageCount b"
  "outbox (addToHistory b c x) = outbox b"
  "emitted (addToHistory b c x) = emitted b"
  "config (addToHistory b c x) = config b"
  "hasModel (addToHistory b c x) = hasModel b"
  "socket (addToHistory b c x) = socket b"
  by (simp_all add: addToHistory_def Let_def)

lemma emitMessage_fields [simp]:
  "rateLimiter (emitMessage b ev) = rateLimiter b"
  "messageCount (emitMessage b ev) = messageCount b"
  "outbox (emitMessage b ev) = outbox b"
  "chatHistory (emitMessage b ev) = chatHistory b"
  "config (emitMessage b ev) = config b"
  "hasModel (emitMessage b ev) = hasModel b"
  "socket (emitMessage b ev) = socket b"
  by (simp_all add: emitMessage_def)

lemma updateRateLimit_fields [simp]:
  "messageCount (updateRateLimit b c t) = messageCount b"
  "outbox (updateRateLimit b c t) = outbox b"
  "chatHistory (updateRateLimit b c t) = chatHistory b"
  "emitted (updateRateLimit b c t) = emitted b"
  "config (updateRateLimit b c t) = config b"
  "socket (updateRateLimit b c t) = socket b"
  by (simp_all add: updateRateLimit_def)

lemma updateRateLimit_entries:
  "entriesOf (rateLimiter (updateRateLimit b c t)) c = entriesOf (rateLimiter b) c @ [t]"
  by (simp add: updateRateLimit_def entriesOf_update)

lemma sendFallback_fields [simp]:
  "messageCount (sendFallback b e c n) = messageCount b"
  "rateLimiter (sendFallback b e c n) = rateLimiter b"
  "emitted (sendFallback b e c n) = emitted b"
  by (simp_all add: sendFallback_def split: option.splits)

lemma generateAndSendResponse_messageCount [simp]:
  "messageCount (generateAndSendResponse b e message c n) = messageCount b"
  by (simp add: generateAndSendResponse_def Let_def split: option.splits)

lemma handleIncomingMessage_regular:
  assumes "\<not> fromMe message" "sender message \<noteq> ''status@broadcast''" "contact e = Some c"
  shows "handleIncomingMessage b e message =
     (let contactName = firstTruthy (pushname c) (cname c) (sender message);
          b1 = b\<lparr>messageCount := messageCount b + 1\<rparr>;
          b2 = snd (checkRateLimit b1 (sender message) (clock (ai e)))
      in if \<not> fst (checkRateLimit b (sender message) (clock (ai e))) then b2
         else generateAndSendResponse
                (emitMessage
                   (addToHistory b2 (sender message)
                      \<lparr>entryType = ''received'', entryMessage = body message,
                       entryTimestamp = clock (ai e), entryPeer = contactName\<rparr>)
                   \<lparr>eventFrom = contactName, eventBody = body message,
                    eventTimestamp = clock (ai e), eventFromMe = False\<rparr>)
                e message (sender message) contactName)"
  using assms by (simp add: handleIncomingMessage_def Let_def split_beta)

text \<open>
  Claim C10, as the spec states it, fails for a message whose contact lookup fails:
  \<open>getContact\<close> is awaited before \<open>messageCount++\<close>, the \<open>catch\<close> of the handler takes the
  rejection, and the message, neither self-originated nor from the broadcast address, is
  not counted.
\<close>

theorem uncounted_message_counterexample:
  "\<not> fromMe (messageFrom ''c1'' ''hi'')
   \<and> sender (messageFrom ''c1'' ''hi'') \<noteq> ''status@broadcast''
   \<and> statusMessageCount (getStatus freshBot) = 0
   \<and> statusMessageCount (getStatus
        (handleIncomingMessage freshBot ((envWith (Inr ''ok'') (1 / 2))\<lparr>contact := None\<rparr>)
           (messageFrom ''c1'' ''hi''))) = 0"
  by (simp add: handleIncomingMessage_def messageFrom_def envWith_def getStatus_def freshBot_def)

text \<open>
  Claim C10, amended. For every inbound message that is neither self-originated nor from
  the broadcast address: when its contact lookup succeeds, the handler increments
  \<open>messageCount\<close> before the rate-limit check, so that the counter \<open>getStatus\<close> shows goes up
  by one whatever the rate limiter answers, and a message the rate limiter then rejects
  adds no history entry, sends no reply and emits nothing, and still is counted; when the
  contact lookup fails, the handler stops before the count and leaves the bot as it was.
\<close>

theorem counted_before_rate_limit:
  assumes "\<not> fromMe message" "sender message \<noteq> ''status@broadcast''"
  shows "(contact e \<noteq> None \<longrightarrow>
            statusMessageCount (getStatus (handleIncomingMessage b e message))
              = statusMessageCount (getStatus b) + 1
          \<and> (\<not> fst (checkRateLimit b (sender message) (clock (ai e))) \<longrightarrow>
               chatHistory (handleIncomingMessage b e message) = chatHistory b
             \<and> outbox (handleIncomingMessage b e message) = outbox b
             \<and> emitted (handleIncomingMessage b e message) = emitted b
             \<and> messageCount (handleIncomingMessage b e message) = messageCount b + 1))
       \<and> (contact e = None \<longrightarrow> handleIncomingMessage b e message = b)"
proof -
  have A: "statusMessageCount (getStatus (handleIncomingMessage b e message))
              = statusMessageCount (getStatus b) + 1
          \<and> (\<not> fst (checkRateLimit b (sender message) (clock (ai e))) \<longrightarrow>
               chatHistory (handleIncomingMessage b e message) = chatHistory b
             \<and> outbox (handleIncomingMessage b e message) = outbox b
             \<and> emitted (handleIncomingMessage b e message) = emitted b
             \<and> messageCount (handleIncomingMessage b e message) = messageCount b + 1)"
    if "contact e = Some c" for c
    unfolding handleIncomingMessage_regular [OF assms that]
    by (simp add: getStatus_def Let_def checkRateLimit_snd)
  have B: "contact e = None \<longrightarrow> handleIncomingMessage b e message = b"
    by (simp add: handleIncomingMessage_def)
  show ?thesis using A B by blast
qed

theorem counted_before_rate_limit_witness:
  "\<not> fst (checkRateLimit busyBot ''c1'' 100000)
   \<and> statusMessageCount (getStatus busyBot) = 0
   \<and> statusMessageCount (getStatus
        (handleIncomingMessage busyBot (envWith (Inr ''ok'') (1 / 2)) (messageFrom ''c1'' ''hi''))) = 1
   \<and> chatHistory (handleIncomingMessage busyBot (envWith (Inr ''ok'') (1 / 2)) (messageFrom ''c1'' ''hi'')) = []
   \<and> outbox (handleIncomingMessage busyBot (envWith (Inr ''ok'') (1 / 2)) (messageFrom ''c1'' ''hi'')) = []
   \<and> handleIncomingMessage busyBot ((envWith (Inr ''ok'') (1 / 2))\<lparr>contact := None\<rparr>)
        (messageFrom ''c1'' ''hi'') = busyBot"
proof -
  have h1: "\<not> fromMe (messageFrom ''c1'' ''hi'')" by (simp add: messageFrom_def)
  have h2: "sender (messageFrom ''c1'' ''hi'') \<noteq> ''status@broadcast''" by (simp add: messageFrom_def)
  have h3: "contact (envWith (Inr ''ok'') (1 / 2)) \<noteq> None" by (simp add: envWith_def)
  have h4: "contact ((envWith (Inr ''ok'') (1 / 2))\<lparr>contact := None\<rparr>) = None" by simp
  have r: "\<not> fst (checkRateLimit busyBot ''c1'' 100000)"
    by (simp add: checkRateLimit_fst busyBot_def freshBot_def defaultConfig_def entriesOf_def)
  have s: "sender (messageFrom ''c1'' ''hi'') = ''c1''" "clock (ai (envWith (Inr ''ok'') (1 / 2))) = 100000"
    by (simp_all add: messageFrom_def envWith_def aiEnvAt_def)
  have z: "statusMessageCount (getStatus busyBot) = 0" "chatHistory busyBot = []" "outbox busyBot = []"
    by (simp_all add: getStatus_def busyBot_def freshBot_def)
  note T1 = counted_before_rate_limit [OF h1 h2, of "envWith (Inr ''ok'') (1 / 2)" busyBot]
  note T2 = counted_before_rate_limit
    [OF h1 h2, of "(envWith (Inr ''ok'') (1 / 2))\<lparr>contact := None\<rparr>" busyBot]
  have lost: "handleIncomingMessage busyBot ((envWith (Inr ''ok'') (1 / 2))\<lparr>contact := None\<rparr>)
        (messageFrom ''c1'' ''hi'') = busyBot"
    using T2 h4 by blast
  show ?thesis
    using r T1 h3 lost by (simp add: s z)
qed

section \<open>Completion failures in the two pipelines\<close>

lemma pool_texts_nonempty: "[] \<notin> set (fallbackResponses t)"
  by (cases t) (simp_all add: fallbackResponses_def)

lemma pool_nonempty: "fallbackResponses t \<noteq> []"
  by (cases t) (simp_all add: fallbackResponses_def)

lemma getFallbackResponse_in_pool:
  assumes "0 \<le> r" "r < 1"
  shows "\<exists>reply. getFallbackResponse r text = Some reply
           \<and> reply \<in> set (fallbackResponses (detectResponseType text))"
  unfolding getFallbackResponse_def using pickRandom_in_pool [OF assms pool_nonempty] .

lemma generateResponse_miss:
  assumes "\<not> truthy (cacheGet (cache g) (clock e) (''response_'' @ hashMessage text))"
  shows "generateResponse g e text n = requestCompletion g e (''response_'' @ hashMessage text) text"
  using assms by (simp add: generateResponse_def truthy_def Let_def split: option.splits)

lemma requestCompletion_failure:
  assumes "completion e = Inl err"
  shows "requestCompletion g e k text = (getFallbackResponse (draws e 0) text, g\<lparr>aiCalls := aiCalls g + 1\<rparr>)"
  using assms by (simp add: requestCompletion_def Let_def)

lemma requestCompletion_success:
  assumes "completion e = Inr t"
  shows "requestCompletion g e k text =
     (Some (addHumanVariations (draws e) (cleanResponse t) (detectLanguage text)),
      g\<lparr>aiCalls := aiCalls g + 1,
        cache := cacheSet (cache g) (clockAfter e) k
                   (addHumanVariations (draws e) (cleanResponse t) (detectLanguage text))\<rparr>)"
  using assms by (simp add: requestCompletion_def Let_def)

lemma generateAndSendResponse_no_reply:
  assumes "presenceOk e"
    and "completion (ai e) = Inl err \<or> (completion (ai e) = Inr t \<and> cleanAIResponse t = [])"
  shows "generateAndSendResponse b e message c n = b"
  using assms by (auto simp: generateAndSendResponse_def getAIResponse_def)

lemma checkRateLimit_outbox [simp]: "outbox (snd (checkRateLimit b c now)) = outbox b"
  by (simp add: checkRateLimit_def Let_def)

lemma bot_completion_failure_no_reply:
  assumes "presenceOk e"
    and "completion (ai e) = Inl err \<or> (completion (ai e) = Inr t \<and> cleanAIResponse t = [])"
  shows "outbox (handleIncomingMessage b e message) = outbox b"
proof (cases "\<not> fromMe message \<and> sender message \<noteq> ''status@broadcast'' \<and> contact e \<noteq> None")
  case True
  then obtain c where c: "contact e = Some c" by auto
  show ?thesis
    using True
    by (simp add: handleIncomingMessage_regular [OF _ _ c] Let_def
        generateAndSendResponse_no_reply [OF assms])
next
  case False
  then show ?thesis by (auto simp: handleIncomingMessage_def)
qed

lemma updateChatHistory_fields [simp]:
  "managerOutbox (updateChatHistory m c x f t) = managerOutbox m"
  "messageStats (updateChatHistory m c x f t) = messageStats m"
  "geminiAI (updateChatHistory m c x f t) = geminiAI m"
  "managerReady (updateChatHistory m c x f t) = managerReady m"
  "managerEmitted (updateChatHistory m c x f t) = managerEmitted m"
  by (simp_all add: updateChatHistory_def Let_def)

lemma manager_regular:
  assumes "\<not> fromMe message" "sender message \<noteq> ''status@broadcast''" "contact e = Some c"
  shows "managerHandleIncomingMessage m e message =
     (let m2 = updateChatHistory
                 (m\<lparr>messageStats := (messageStats m)\<lparr>received := received (messageStats m) + 1\<rparr>,
                    managerEmitted := managerEmitted m @ [(''message_received'', body message)]\<rparr>)
                 (sender message) (body message) False (clock (ai e));
          r = generateResponse (geminiAI m2) (ai e) (body message)
                (firstTruthy (cname c) (pushname c) (sender message));
          m3 = m2\<lparr>geminiAI := snd r\<rparr>
      in case fst r of
           None \<Rightarrow> m3
         | Some reply \<Rightarrow>
             if reply = [] then m3
             else (case sendMessage m3 (sendOk e) (sender message) reply of
                     Inl err \<Rightarrow> recover m3 e (sender message)
                   | Inr m4 \<Rightarrow> updateChatHistory m4 (sender message) reply True (clockAfter (ai e))))"
  using assms
  by (simp add: managerHandleIncomingMessage_def generateAIResponse_def Let_def split_beta)


lemma sendFallback_outbox:
  "outbox (sendFallback b e c n) = outbox b
   \<or> (\<exists>reply. reply \<in> set fallbacks \<and> outbox (sendFallback b e c n) = outbox b @ [(c, reply)])"
proof (cases "botFallbackResponse (fallbackDraw e)")
  case None
  then show ?thesis by (simp add: sendFallback_def)
next
  case (Some reply)
  then have "reply \<in> set fallbacks"
    by (auto simp: botFallbackResponse_def pickRandom_def Let_def split: if_splits)
  then show ?thesis using Some by (auto simp: sendFallback_def)
qed

lemma generateAndSendResponse_outbox:
  "outbox (generateAndSendResponse b e message c n) = outbox b
   \<or> (\<exists>reply. outbox (generateAndSendResponse b e message c n) = outbox b @ [(c, reply)]
        \<and> (reply \<in> set fallbacks \<and> (\<not> presenceOk e \<or> \<not> clearOk e \<or> \<not> sendOk e)
           \<or> (\<exists>t. completion (ai e) = Inr t \<and> reply = cleanAIResponse t \<and> reply \<noteq> [])))"
  using sendFallback_outbox [of b e c n]
  by (auto simp: generateAndSendResponse_def getAIResponse_def Let_def split: option.splits sum.splits)

lemma bot_outbox:
  "outbox (handleIncomingMessage b e message) = outbox b
   \<or> (\<exists>reply. outbox (handleIncomingMessage b e message) = outbox b @ [(sender message, reply)]
        \<and> (reply \<in> set fallbacks \<and> (\<not> presenceOk e \<or> \<not> clearOk e \<or> \<not> sendOk e)
           \<or> (\<exists>t. completion (ai e) = Inr t \<and> reply = cleanAIResponse t \<and> reply \<noteq> [])))"
proof (cases "\<not> fromMe message \<and> sender message \<noteq> ''status@broadcast'' \<and> contact e \<noteq> None")
  case True
  then obtain c where c: "contact e = Some c" by auto
  show ?thesis
  proof (cases "fst (checkRateLimit b (sender message) (clock (ai e)))")
    case False
    then show ?thesis using True by (simp add: handleIncomingMessage_regular [OF _ _ c] Let_def)
  next
    case adm: True
    let ?b4 = "emitMessage
                   (addToHistory (snd (checkRateLimit (b\<lparr>messageCount := messageCount b + 1\<rparr>)
                        (sender message) (clock (ai e)))) (sender message)
                      \<lparr>entryType = ''received'', entryMessage = body message,
                       entryTimestamp = clock (ai e),
                       entryPeer = firstTruthy (pushname c) (cname c) (sender message)\<rparr>)
                   \<lparr>eventFrom = firstTruthy (pushname c) (cname c) (sender message),
                    eventBody = body message,
                    eventTimestamp = clock (ai e), eventFromMe = False\<rparr>"
    have o: "outbox ?b4 = outbox b" by simp
    have h: "handleIncomingMessage b e message
               = generateAndSendResponse ?b4 e message (sender message)
                   (firstTruthy (pushname c) (cname c) (sender message))"
      using True adm by (simp add: handleIncomingMessage_regular [OF _ _ c] Let_def)
    show ?thesis
      unfolding h
      using generateAndSendResponse_outbox [of ?b4 e message "sender message"
          "firstTruthy (pushname c) (cname c) (sender message)"]
      unfolding o .
  qed
next
  case False
  then show ?thesis by (auto simp: handleIncomingMessage_def)
qed

text \<open>
  Claim C4, as the spec states it, fails in the bot: a message is admitted and stored, the
  completion service throws, and no reply at all is handed to the transport.
\<close>

theorem completion_failure_counterexample:
  "completion (ai (envWith (Inl CompletionFailed) (1 / 2))) = Inl CompletionFailed
   \<and> entriesOf (chatHistory
        (handleIncomingMessage freshBot (envWith (Inl CompletionFailed) (1 / 2)) (messageFrom ''c1'' ''hi''))) ''c1''
      = [\<lparr>entryType = ''received'', entryMessage = ''hi'', entryTimestamp = 100000, entryPeer = ''Asha''\<rparr>]
   \<and> outbox (handleIncomingMessage freshBot (envWith (Inl CompletionFailed) (1 / 2)) (messageFrom ''c1'' ''hi'')) = []"
  by (simp add: handleIncomingMessage_def generateAndSendResponse_def getAIResponse_def
      checkRateLimit_def addToHistory_def emitMessage_def envWith_def aiEnvAt_def messageFrom_def freshBot_def
      defaultConfig_def asha_def firstTruthy_def truthy_def templateText_def entriesOf_def Let_def)

text \<open>
  Claim C4, amended. When the completion step fails (the service throws) or yields an
  empty text, no handler raises an error or counts a delivery failure, and:
  \<^item> in the bot, \<open>getAIResponse\<close> gives \<open>null\<close> or the empty text and the handler returns
    without sending any reply; the bot sends at most one reply for a message, and a
    reply of its fallback pool only when a transport call of the reply path has failed;
  \<^item> in the manager, whose completions go through \<open>GeminiAI.generateResponse\<close>, a failed
    completion is replaced by a reply drawn from the fallback pool of the message's
    category, and that reply is dispatched (the client being ready and the transport
    accepting it), with no error counted;
  \<^item> in the manager, an empty completion sends no reply and counts no error.
\<close>

theorem completion_failure_handling:
  "(presenceOk e \<and>
      (completion (ai e) = Inl err \<or> (completion (ai e) = Inr t \<and> cleanAIResponse t = [])) \<longrightarrow>
      outbox (handleIncomingMessage b e message) = outbox b)
   \<and> (\<not> fromMe message \<and> sender message \<noteq> ''status@broadcast'' \<and> contact e = Some c \<and>
       \<not> truthy (cacheGet (cache (geminiAI m)) (clock (ai e)) (''response_'' @ hashMessage (body message))) \<and>
       completion (ai e) = Inl err \<and> 0 \<le> draws (ai e) 0 \<and> draws (ai e) 0 < 1 \<and>
       managerReady m \<and> sendOk e \<longrightarrow>
       (\<exists>reply. reply \<in> set (fallbackResponses (detectResponseType (body message)))
          \<and> managerOutbox (managerHandleIncomingMessage m e message)
              = managerOutbox m @ [(sender message, reply)]
          \<and> errors (messageStats (managerHandleIncomingMessage m e message))
              = errors (messageStats m)))
   \<and> (\<not> fromMe message \<and> sender message \<noteq> ''status@broadcast'' \<and> contact e = Some c \<and>
       \<not> truthy (cacheGet (cache (geminiAI m)) (clock (ai e)) (''response_'' @ hashMessage (body message))) \<and>
       completion (ai e) = Inr t \<and>
       addHumanVariations (draws (ai e)) (cleanResponse t) (detectLanguage (body message)) = [] \<longrightarrow>
       managerOutbox (managerHandleIncomingMessage m e message) = managerOutbox m
       \<and> errors (messageStats (managerHandleIncomingMessage m e message)) = errors (messageStats m))
   \<and> (outbox (handleIncomingMessage b e message) = outbox b
       \<or> (\<exists>reply. outbox (handleIncomingMessage b e message) = outbox b @ [(sender message, reply)]
            \<and> (reply \<in> set fallbacks \<and> (\<not> presenceOk e \<or> \<not> clearOk e \<or> \<not> sendOk e)
               \<or> (\<exists>t. completion (ai e) = Inr t \<and> reply = cleanAIResponse t \<and> reply \<noteq> []))))"
proof -
  have P1: "presenceOk e \<and>
      (completion (ai e) = Inl err \<or> (completion (ai e) = Inr t \<and> cleanAIResponse t = [])) \<longrightarrow>
      outbox (handleIncomingMessage b e message) = outbox b"
    using bot_completion_failure_no_reply by blast
  have P2: "\<not> fromMe message \<and> sender message \<noteq> ''status@broadcast'' \<and> contact e = Some c \<and>
       \<not> truthy (cacheGet (cache (geminiAI m)) (clock (ai e)) (''response_'' @ hashMessage (body message))) \<and>
       completion (ai e) = Inl err \<and> 0 \<le> draws (ai e) 0 \<and> draws (ai e) 0 < 1 \<and>
       managerReady m \<and> sendOk e \<longrightarrow>
       (\<exists>reply. reply \<in> set (fallbackResponses (detectResponseType (body message)))
          \<and> managerOutbox (managerHandleIncomingMessage m e message)
              = managerOutbox m @ [(sender message, reply)]
          \<and> errors (messageStats (managerHandleIncomingMessage m e message))
              = errors (messageStats m))"
  proof (rule impI)
    assume a: "\<not> fromMe message \<and> sender message \<noteq> ''status@broadcast'' \<and> contact e = Some c \<and>
       \<not> truthy (cacheGet (cache (geminiAI m)) (clock (ai e)) (''response_'' @ hashMessage (body message))) \<and>
       completion (ai e) = Inl err \<and> 0 \<le> draws (ai e) 0 \<and> draws (ai e) 0 < 1 \<and>
       managerReady m \<and> sendOk e"
    then obtain reply where r: "getFallbackResponse (draws (ai e) 0) (body message) = Some reply"
      and p: "reply \<in> set (fallbackResponses (detectResponseType (body message)))"
      using getFallbackResponse_in_pool by blast
    have ne: "reply \<noteq> []" using p pool_texts_nonempty by metis
    have g: "generateResponse (geminiAI m) (ai e) (body message) n =
               (Some reply, (geminiAI m)\<lparr>aiCalls := aiCalls (geminiAI m) + 1\<rparr>)" for n
      using a r by (simp add: generateResponse_miss requestCompletion_failure)
    have "managerOutbox (managerHandleIncomingMessage m e message) = managerOutbox m @ [(sender message, reply)]
        \<and> errors (messageStats (managerHandleIncomingMessage m e message)) = errors (messageStats m)"
      using a ne by (simp add: manager_regular Let_def g sendMessage_def)
    then show "\<exists>reply. reply \<in> set (fallbackResponses (detectResponseType (body message)))
            \<and> managerOutbox (managerHandleIncomingMessage m e message)
                = managerOutbox m @ [(sender message, reply)]
            \<and> errors (messageStats (managerHandleIncomingMessage m e message))
                = errors (messageStats m)"
      using p by blast
  qed
  have P3: "\<not> fromMe message \<and> sender message \<noteq> ''status@broadcast'' \<and> contact e = Some c \<and>
       \<not> truthy (cacheGet (cache (geminiAI m)) (clock (ai e)) (''response_'' @ hashMessage (body message))) \<and>
       completion (ai e) = Inr t \<and>
       addHumanVariations (draws (ai e)) (cleanResponse t) (detectLanguage (body message)) = [] \<longrightarrow>
       managerOutbox (managerHandleIncomingMessage m e message) = managerOutbox m
       \<and> errors (messageStats (managerHandleIncomingMessage m e message)) = errors (messageStats m)"
    by (simp add: manager_regular Let_def generateResponse_miss requestCompletion_success)
  show ?thesis by (intro conjI) (rule P1, rule P2, rule P3, rule bot_outbox)
qed


theorem completion_failure_handling_witness:
  "outbox (handleIncomingMessage freshBot (envWith (Inl CompletionFailed) (1 / 2))
      (messageFrom ''c1'' ''thanks a lot'')) = []
   \<and> (\<exists>reply. reply \<in> set (fallbackResponses Thanks)
        \<and> managerOutbox (managerHandleIncomingMessage freshManager (envWith (Inl CompletionFailed) (1 / 2))
             (messageFrom ''c1'' ''thanks a lot'')) = [(''c1'', reply)]
        \<and> errors (messageStats (managerHandleIncomingMessage freshManager
             (envWith (Inl CompletionFailed) (1 / 2)) (messageFrom ''c1'' ''thanks a lot''))) = 0)
   \<and> outbox (handleIncomingMessage freshBot (envWith (Inr ''   '') (1 / 2))
        (messageFrom ''c1'' ''thanks a lot'')) = []
   \<and> managerOutbox (managerHandleIncomingMessage freshManager (envWith (Inr ''   '') (1 / 2))
        (messageFrom ''c1'' ''thanks a lot'')) = []"
proof -
  let ?msg = "messageFrom ''c1'' ''thanks a lot''"
  let ?fail = "envWith (Inl CompletionFailed) (1 / 2)"
  let ?blank = "envWith (Inr ''   '') (1 / 2)"
  have msg: "\<not> fromMe ?msg" "sender ?msg \<noteq> ''status@broadcast''" "sender ?msg = ''c1''"
    "body ?msg = ''thanks a lot''"
    by (simp_all add: messageFrom_def)
  have env: "presenceOk ?fail" "contact ?fail = Some asha" "completion (ai ?fail) = Inl CompletionFailed"
    "0 \<le> draws (ai ?fail) 0" "draws (ai ?fail) 0 < 1" "sendOk ?fail"
    "presenceOk ?blank" "contact ?blank = Some asha" "completion (ai ?blank) = Inr ''   ''"
    by (simp_all add: envWith_def aiEnvAt_def)
  have miss: "\<not> truthy (cacheGet (cache (geminiAI freshManager)) (clock (ai x)) k)" for x k
    by (simp add: freshManager_def cacheGet_def truthy_def)
  have st: "managerReady freshManager" "managerOutbox freshManager = []"
    "errors (messageStats freshManager) = 0" "outbox freshBot = []"
    by (simp_all add: freshManager_def freshBot_def)
  have cat: "detectResponseType ''thanks a lot'' = Thanks" by code_simp
  have blank1: "cleanAIResponse ''   '' = []" by code_simp
  have blank2: "addHumanVariations (draws (ai ?blank)) (cleanResponse ''   '') (detectLanguage ''thanks a lot'') = []"
    by (simp add: envWith_def aiEnvAt_def addHumanVariations_def) code_simp
  show ?thesis
    using completion_failure_handling [where e = ?fail and err = CompletionFailed and t = "''''"
        and b = freshBot and message = ?msg and c = asha and m = freshManager]
      completion_failure_handling [where e = ?blank and err = CompletionFailed and t = "''   ''"
        and b = freshBot and message = ?msg and c = asha and m = freshManager]
    by (simp add: msg env miss st cat blank1 blank2)
qed

section \<open>Messages that are not events\<close>

text \<open>
  Claim C9. A message that is self-originated (\<open>fromMe\<close>) or comes from
  \<open>status@broadcast\<close> leaves the whole state of the handler's object unchanged, in the bot
  and in the manager: no history entry, no counter, no rate-limit window, no reply, no
  event; the handler returns normally. What \<open>getStatus\<close> shows is unchanged as well.
\<close>

theorem self_and_broadcast_ignored:
  assumes "fromMe message \<or> sender message = ''status@broadcast''"
  shows "handleIncomingMessage b e message = b
       \<and> managerHandleIncomingMessage m e message = m
       \<and> getStatus (handleIncomingMessage b e message) = getStatus b"
  using assms by (auto simp: handleIncomingMessage_def managerHandleIncomingMessage_def)

theorem self_and_broadcast_ignored_witness:
  "handleIncomingMessage busyBot (envWith (Inr ''ok'') (1 / 2)) \<lparr>sender = ''c1'', fromMe = True, body = ''hi''\<rparr> = busyBot
   \<and> handleIncomingMessage busyBot (envWith (Inr ''ok'') (1 / 2)) (messageFrom ''status@broadcast'' ''hi'') = busyBot
   \<and> managerHandleIncomingMessage freshManager (envWith (Inr ''ok'') (1 / 2)) \<lparr>sender = ''c1'', fromMe = True, body = ''hi''\<rparr>
       = freshManager
   \<and> managerHandleIncomingMessage freshManager (envWith (Inr ''ok'') (1 / 2)) (messageFrom ''status@broadcast'' ''hi'')
       = freshManager"
  using self_and_broadcast_ignored [of "\<lparr>sender = ''c1'', fromMe = True, body = ''hi''\<rparr>"
      busyBot "envWith (Inr ''ok'') (1 / 2)" freshManager]
    self_and_broadcast_ignored [of "messageFrom ''status@broadcast'' ''hi''"
      busyBot "envWith (Inr ''ok'') (1 / 2)" freshManager]
  by (simp add: messageFrom_def)

section \<open>The rate limiter\<close>

lemma checkRateLimit_fields [simp]:
  "hasModel (snd (checkRateLimit b c now)) = hasModel b"
  "messageCount (snd (checkRateLimit b c now)) = messageCount b"
  "chatHistory (snd (checkRateLimit b c now)) = chatHistory b"
  "emitted (snd (checkRateLimit b c now)) = emitted b"
  by (simp_all add: checkRateLimit_def Let_def)








section \<open>Destroyed sessions\<close>

lemma removeSession_lookup:
  "map_of ss sid = Some info \<Longrightarrow>
   map_of (removeSession ss sid now) sid
     = Some (info\<lparr>isActive := False, status := ''destroyed'', lastActivity := now\<rparr>)"
  by (simp add: removeSession_def update_conv')

lemma removeSession_twice:
  "removeSession (removeSession ss sid t1) sid t2 = removeSession ss sid t2"
  by (cases "map_of ss sid") (simp_all add: removeSession_def update_conv')

lemma updateSessionStatus_lookup:
  "map_of ss sid = Some info \<Longrightarrow>
   map_of (updateSessionStatus ss sid s additionalData now) sid
     = Some (objectAssign (info\<lparr>status := s, lastActivity := now\<rparr>) additionalData)"
  by (simp add: updateSessionStatus_def update_conv')

lemma status_assignField:
  "status (assignField info f) = (case f of Status v \<Rightarrow> v | _ \<Rightarrow> status info)"
  by (cases f) simp_all

lemma status_objectAssign:
  "status (objectAssign info additionalData)
     = (case statusProperty additionalData of None \<Rightarrow> status info | Some v \<Rightarrow> v)"
  unfolding objectAssign_def
proof (induction additionalData arbitrary: info)
  case Nil
  show ?case by simp
next
  case (Cons f fs)
  show ?case
    by (cases f) (simp_all add: Cons.IH split: option.splits)
qed

text \<open>
  Claim C3, as the spec states it, fails: \<open>updateSessionStatus\<close> has no guard for a
  destroyed session, and a status update to \<open>ready\<close> takes the session out of
  \<open>destroyed\<close>.
\<close>

theorem destroyed_status_counterexample:
  "map_option status (map_of destroyedSessions ''wa_1700000000000_00112233445566ff'') = Some ''destroyed''
   \<and> map_option status
        (map_of (updateSessionStatus destroyedSessions ''wa_1700000000000_00112233445566ff'' ''ready'' []
           1700000009000) ''wa_1700000000000_00112233445566ff'') = Some ''ready''"
  by (simp add: updateSessionStatus_def destroyedSessions_def destroyedInfo_def objectAssign_def)

text \<open>
  Claim C3, amended. For every session whose status is \<open>destroyed\<close>: \<open>removeSession\<close>
  (the registry's destroy) leaves the status \<open>destroyed\<close>; it clears \<open>isActive\<close> and
  refreshes \<open>lastActivity\<close> and changes nothing else of the session; calling it twice
  gives the state that calling it once at the later instant gives. \<open>updateSessionStatus\<close>
  has no guard: it assigns the status it is given and then merges \<open>additionalData\<close> over
  the session, so the status it stores is the property \<open>status\<close> of \<open>additionalData\<close> when
  there is one, and the status given otherwise; the status stays \<open>destroyed\<close> exactly when
  that value is \<open>destroyed\<close>. \<open>WhatsAppManager.destroy\<close>, once it has succeeded, leaves
  the status \<open>destroyed\<close>, and calling it again succeeds and gives the same state.
\<close>

theorem destroyed_stays_destroyed_on_remove:
  assumes "map_of ss sid = Some info" and "status info = ''destroyed''"
  shows "map_of (removeSession ss sid now) sid = Some (info\<lparr>isActive := False, lastActivity := now\<rparr>)
       \<and> map_option status (map_of (removeSession ss sid now) sid) = Some ''destroyed''
       \<and> removeSession (removeSession ss sid now) sid later = removeSession ss sid later
       \<and> map_option status (map_of (updateSessionStatus ss sid s additionalData now) sid)
           = Some (case statusProperty additionalData of None \<Rightarrow> s | Some v \<Rightarrow> v)
       \<and> (map_option status (map_of (updateSessionStatus ss sid s additionalData now) sid)
            = Some ''destroyed''
          \<longleftrightarrow> (case statusProperty additionalData of None \<Rightarrow> s | Some v \<Rightarrow> v) = ''destroyed'')
       \<and> (destroy m ok = Inr m' \<longrightarrow> managerStatus m' = ''destroyed'' \<and> destroy m' ok' = Inr m')"
proof -
  have a: "info\<lparr>isActive := False, status := ''destroyed'', lastActivity := now\<rparr>
             = info\<lparr>isActive := False, lastActivity := now\<rparr>"
    using assms(2) by (cases info) simp
  have A: "map_of (removeSession ss sid now) sid = Some (info\<lparr>isActive := False, lastActivity := now\<rparr>)"
    using removeSession_lookup [OF assms(1)] a by simp
  have B: "map_option status (map_of (removeSession ss sid now) sid) = Some ''destroyed''"
    using A assms(2) by simp
  have C: "map_option status (map_of (updateSessionStatus ss sid s additionalData now) sid)
           = Some (case statusProperty additionalData of None \<Rightarrow> s | Some v \<Rightarrow> v)"
    using updateSessionStatus_lookup [OF assms(1)]
    by (simp add: status_objectAssign split: option.splits)
  have C': "map_option status (map_of (updateSessionStatus ss sid s additionalData now) sid)
            = Some ''destroyed''
          \<longleftrightarrow> (case statusProperty additionalData of None \<Rightarrow> s | Some v \<Rightarrow> v) = ''destroyed''"
    unfolding C by simp
  have D: "destroy m ok = Inr m' \<longrightarrow> managerStatus m' = ''destroyed'' \<and> destroy m' ok' = Inr m'"
    by (auto simp: destroy_def split: if_splits)
  show ?thesis
    by (intro conjI) (rule A, rule B, rule removeSession_twice, rule C, rule C', rule D)
qed

theorem destroyed_stays_destroyed_on_remove_witness:
  "map_of destroyedSessions ''wa_1700000000000_00112233445566ff'' = Some destroyedInfo
   \<and> status destroyedInfo = ''destroyed''
   \<and> map_of (removeSession destroyedSessions ''wa_1700000000000_00112233445566ff'' 1700000009000)
        ''wa_1700000000000_00112233445566ff'' = Some (destroyedInfo\<lparr>lastActivity := 1700000009000\<rparr>)
   \<and> map_option status
        (map_of (updateSessionStatus destroyedSessions ''wa_1700000000000_00112233445566ff'' ''destroyed'' []
           1700000009000) ''wa_1700000000000_00112233445566ff'') = Some ''destroyed''
   \<and> map_option status
        (map_of (updateSessionStatus destroyedSessions ''wa_1700000000000_00112233445566ff'' ''ready''
           [Status ''destroyed''] 1700000009000) ''wa_1700000000000_00112233445566ff'') = Some ''destroyed''
   \<and> map_option status
        (map_of (updateSessionStatus destroyedSessions ''wa_1700000000000_00112233445566ff'' ''destroyed''
           [Other ''qr'' ''x'', Status ''ready''] 1700000009000) ''wa_1700000000000_00112233445566ff'')
       = Some ''ready''
   \<and> destroy freshManager True
        = Inr (freshManager\<lparr>client := False, managerReady := False, managerStatus := ''destroyed''\<rparr>)
   \<and> destroy (freshManager\<lparr>client := False, managerReady := False, managerStatus := ''destroyed''\<rparr>) False
        = Inr (freshManager\<lparr>client := False, managerReady := False, managerStatus := ''destroyed''\<rparr>)"
proof -
  have h1: "map_of destroyedSessions ''wa_1700000000000_00112233445566ff'' = Some destroyedInfo"
    by (simp add: destroyedSessions_def)
  have h2: "status destroyedInfo = ''destroyed''" by (simp add: destroyedInfo_def)
  have d: "destroy freshManager True
        = Inr (freshManager\<lparr>client := False, managerReady := False, managerStatus := ''destroyed''\<rparr>)"
    by (simp add: destroy_def freshManager_def)
  have i: "destroyedInfo\<lparr>isActive := False, lastActivity := 1700000009000\<rparr>
            = destroyedInfo\<lparr>lastActivity := 1700000009000\<rparr>"
    by (simp add: destroyedInfo_def)
  note T1 = destroyed_stays_destroyed_on_remove [OF h1 h2, where now = 1700000009000
        and s = "''destroyed''" and additionalData = "[]"
        and m = freshManager and ok = True and ok' = False
        and m' = "freshManager\<lparr>client := False, managerReady := False, managerStatus := ''destroyed''\<rparr>"]
  note T2 = destroyed_stays_destroyed_on_remove [OF h1 h2, where now = 1700000009000
        and s = "''ready''" and additionalData = "[Status ''destroyed'']"]
  note T3 = destroyed_stays_destroyed_on_remove [OF h1 h2, where now = 1700000009000
        and s = "''destroyed''" and additionalData = "[Other ''qr'' ''x'', Status ''ready'']"]
  have r1: "map_of (removeSession destroyedSessions ''wa_1700000000000_00112233445566ff'' 1700000009000)
        ''wa_1700000000000_00112233445566ff'' = Some (destroyedInfo\<lparr>lastActivity := 1700000009000\<rparr>)
   \<and> map_option status
        (map_of (updateSessionStatus destroyedSessions ''wa_1700000000000_00112233445566ff'' ''destroyed'' []
           1700000009000) ''wa_1700000000000_00112233445566ff'') = Some ''destroyed''
   \<and> destroy (freshManager\<lparr>client := False, managerReady := False, managerStatus := ''destroyed''\<rparr>) False
        = Inr (freshManager\<lparr>client := False, managerReady := False, managerStatus := ''destroyed''\<rparr>)"
    using d T1 by (simp add: i)
  have r2: "map_option status
        (map_of (updateSessionStatus destroyedSessions ''wa_1700000000000_00112233445566ff'' ''ready''
           [Status ''destroyed''] 1700000009000) ''wa_1700000000000_00112233445566ff'') = Some ''destroyed''"
    using T2 by simp
  have r3: "map_option status
        (map_of (updateSessionStatus destroyedSessions ''wa_1700000000000_00112233445566ff'' ''destroyed''
           [Other ''qr'' ''x'', Status ''ready''] 1700000009000) ''wa_1700000000000_00112233445566ff'')
       = Some ''ready''"
    using T3 by simp
  show ?thesis using h1 h2 d r1 r2 r3 by blast
qed

section \<open>Session identifiers\<close>

lemma isDigit_digitChar: "0 \<le> d \<Longrightarrow> d < 10 \<Longrightarrow> isDigit (digitChar d)"
  by (simp add: isDigit_def digitChar_def Let_def)

lemma decimalDigits_digits: "0 \<le> n \<Longrightarrow> list_all isDigit (decimalDigits n) \<and> decimalDigits n \<noteq> []"
proof (induction n rule: decimalDigits.induct)
  case (1 n)
  show ?case
  proof (cases "n < 10")
    case True
    then show ?thesis using "1.prems" by (simp add: decimalDigits.simps [of n] isDigit_digitChar)
  next
    case False
    then have "0 \<le> n div 10" by simp
    with "1.IH" False have "list_all isDigit (decimalDigits (n div 10))" by simp
    moreover have "isDigit (digitChar (n mod 10))" by (rule isDigit_digitChar) simp_all
    ultimately show ?thesis using False by (simp add: decimalDigits.simps [of n])
  qed
qed

lemma isHexLower_hexDigit: "0 \<le> d \<Longrightarrow> d < 16 \<Longrightarrow> isHexLower (hexDigit d)"
  by (simp add: isHexLower_def isDigit_def hexDigit_def Let_def)

lemma hexByte_hex: "list_all isHexLower (hexByte b)"
proof -
  have "uint b < 256" using uint_bounded [of b] by simp
  then have "uint b div 16 < 16" by simp
  moreover have "0 \<le> uint b div 16" using uint_ge_0 [of b] by (simp add: div_int_pos_iff)
  moreover have "0 \<le> uint b mod 16" "uint b mod 16 < 16" by simp_all
  ultimately show ?thesis by (simp add: hexByte_def isHexLower_hexDigit)
qed

lemma toHex_hex: "list_all isHexLower (toHex bytes)"
  by (induction bytes) (simp_all add: toHex_def hexByte_hex)

lemma length_toHex: "length (toHex bytes) = 2 * length bytes"
  by (induction bytes) (simp_all add: toHex_def hexByte_def)

lemma underscore_no_digit: "\<not> isDigit (CHR ''_'')"
  by (simp add: isDigit_def)

lemma isValidSessionId_shape:
  assumes "list_all isDigit ds" "ds \<noteq> []" "length hs = 16" "list_all isHexLower hs"
  shows "isValidSessionId (''wa_'' @ ds @ ''_'' @ hs)"
proof -
  have all: "\<forall>x\<in>set ds. isDigit x" using assms(1) by (simp add: list_all_iff)
  have t: "takeWhile isDigit (ds @ CHR ''_'' # hs) = ds"
    using all underscore_no_digit by (simp add: takeWhile_tail)
  have d: "dropWhile isDigit (ds @ CHR ''_'' # hs) = CHR ''_'' # hs"
    using all underscore_no_digit by (simp add: dropWhile_append3)
  show ?thesis using assms t d by (simp add: isValidSessionId_def Let_def)
qed

lemma of_char_digitChar: "0 \<le> d \<Longrightarrow> d < 10 \<Longrightarrow> (of_char (digitChar d) :: int) = 48 + d"
  by (simp add: digitChar_def)

lemma decimalDigits_value:
  "0 \<le> n \<Longrightarrow> foldl (\<lambda>acc c. acc * 10 + ((of_char c :: int) - 48)) 0 (decimalDigits n) = n"
proof (induction n rule: decimalDigits.induct)
  case (1 n)
  show ?case
  proof (cases "n < 10")
    case True
    then show ?thesis using "1.prems"
      by (simp add: decimalDigits.simps [of n] of_char_digitChar)
  next
    case False
    then have p: "0 \<le> n div 10" by simp
    have m: "(of_char (digitChar (n mod 10)) :: int) = 48 + n mod 10"
      by (rule of_char_digitChar) simp_all
    show ?thesis using False "1.IH" [OF False p]
      by (simp add: decimalDigits.simps [of n] m)
  qed
qed

lemma decimalDigits_inj:
  assumes "0 \<le> a" "0 \<le> b" "decimalDigits a = decimalDigits b"
  shows "a = b"
proof -
  have "a = foldl (\<lambda>acc c. acc * 10 + ((of_char c :: int) - 48)) 0 (decimalDigits a)"
    by (simp only: decimalDigits_value [OF assms(1)])
  also have "\<dots> = foldl (\<lambda>acc c. acc * 10 + ((of_char c :: int) - 48)) 0 (decimalDigits b)"
    by (simp only: assms(3))
  also have "\<dots> = b" by (simp only: decimalDigits_value [OF assms(2)])
  finally show ?thesis .
qed

lemma of_char_hexDigit:
  "0 \<le> d \<Longrightarrow> d < 16 \<Longrightarrow> (of_char (hexDigit d) :: int) = (if d < 10 then 48 + d else 87 + d)"
  by (simp add: hexDigit_def)

lemma hexDigit_inj:
  assumes "0 \<le> d" "d < 16" "0 \<le> d'" "d' < 16" "hexDigit d = hexDigit d'"
  shows "d = d'"
proof -
  have "(of_char (hexDigit d) :: int) = of_char (hexDigit d')" using assms(5) by simp
  then show ?thesis
    using assms(1-4) by (simp add: of_char_hexDigit split: if_splits)
qed

lemma hexByte_inj:
  assumes "hexByte a = hexByte b"
  shows "a = b"
proof -
  have ba: "0 \<le> uint a" "uint a < 256" using uint_bounded [of a] by simp_all
  have bb: "0 \<le> uint b" "uint b < 256" using uint_bounded [of b] by simp_all
  have "uint a div 16 = uint b div 16"
    using assms ba bb by (intro hexDigit_inj) (simp_all add: hexByte_def div_int_pos_iff)
  moreover have "uint a mod 16 = uint b mod 16"
    using assms by (intro hexDigit_inj) (simp_all add: hexByte_def)
  ultimately have "uint a div 16 * 16 + uint a mod 16 = uint b div 16 * 16 + uint b mod 16"
    by (simp only:)
  then have "uint a = uint b" by (simp only: div_mult_mod_eq)
  then show ?thesis by (simp only: word_uint_eq_iff)
qed

lemma toHex_Cons: "toHex (b # bs) = hexByte b @ toHex bs"
  by (simp add: toHex_def)

lemma toHex_inj:
  "toHex xs = toHex ys \<Longrightarrow> xs = ys"
proof (induction xs arbitrary: ys)
  case Nil
  then show ?case by (cases ys) (simp_all add: toHex_def hexByte_def)
next
  case (Cons x xs)
  then obtain y ys' where ys: "ys = y # ys'" by (cases ys) (auto simp: toHex_def hexByte_def)
  have "hexByte x @ toHex xs = hexByte y @ toHex ys'" using Cons.prems ys by (simp add: toHex_Cons)
  moreover have "length (hexByte x) = length (hexByte y)" by (simp add: hexByte_def)
  ultimately have "hexByte x = hexByte y" "toHex xs = toHex ys'" by simp_all
  then show ?case using Cons.IH hexByte_inj ys by blast
qed

lemma digits_then_underscore:
  assumes "list_all isDigit ds"
  shows "takeWhile isDigit (ds @ CHR ''_'' # hs) = ds"
    and "dropWhile isDigit (ds @ CHR ''_'' # hs) = CHR ''_'' # hs"
proof -
  have all: "\<forall>x\<in>set ds. isDigit x" using assms by (simp add: list_all_iff)
  show "takeWhile isDigit (ds @ CHR ''_'' # hs) = ds"
    using all underscore_no_digit by (simp add: takeWhile_tail)
  show "dropWhile isDigit (ds @ CHR ''_'' # hs) = CHR ''_'' # hs"
    using all underscore_no_digit by (simp add: dropWhile_append3)
qed

lemma generateSessionId_fst:
  "fst (generateSessionId activeSessions timestamp randomBytes)
     = ''wa_'' @ decimal timestamp @ ''_'' @ toHex randomBytes"
  by (simp add: generateSessionId_def Let_def)

lemma generateSessionId_entry:
  "map_of (snd (generateSessionId activeSessions timestamp randomBytes))
      (fst (generateSessionId activeSessions timestamp randomBytes))
     = Some \<lparr>sessionId = fst (generateSessionId activeSessions timestamp randomBytes),
             createdAt = timestamp, lastActivity = timestamp, status = ''created'',
             sessionMessageCount = 0, isActive = True, otherFields = []\<rparr>"
  by (simp add: generateSessionId_def Let_def update_conv')

text \<open>
  Claim C8. The identifier that \<open>generateSessionId\<close> produces from a clock reading that
  is not negative (a clock not set before 1970) and the eight bytes of
  \<open>crypto.randomBytes(8)\<close> satisfies \<open>isValidSessionId\<close>, whatever the registry holds: the
  check reads the text only. The identifier is built from the two: after \<open>wa_\<close>, its
  digits are the decimal form of the clock reading, and after the underscore come the
  sixteen hexadecimal digits of the eight bytes, so that two identifiers are equal only if
  they were made from the same clock reading and the same bytes. The registry holds the
  new session under the identifier.
\<close>

theorem generated_id_is_valid:
  assumes "0 \<le> timestamp" and "length randomBytes = 8"
  shows "isValidSessionId (fst (generateSessionId activeSessions timestamp randomBytes))
       \<and> takeWhile isDigit (drop 3 (fst (generateSessionId activeSessions timestamp randomBytes)))
           = decimal timestamp
       \<and> drop 1 (dropWhile isDigit
                   (drop 3 (fst (generateSessionId activeSessions timestamp randomBytes))))
           = toHex randomBytes
       \<and> length (toHex randomBytes) = 16
       \<and> (0 \<le> timestamp' \<and> length randomBytes' = 8 \<and>
          fst (generateSessionId activeSessions' timestamp' randomBytes')
            = fst (generateSessionId activeSessions timestamp randomBytes)
          \<longrightarrow> timestamp' = timestamp \<and> randomBytes' = randomBytes)
       \<and> map_of (snd (generateSessionId activeSessions timestamp randomBytes))
            (fst (generateSessionId activeSessions timestamp randomBytes))
           = Some \<lparr>sessionId = fst (generateSessionId activeSessions timestamp randomBytes),
                   createdAt = timestamp, lastActivity = timestamp, status = ''created'',
                   sessionMessageCount = 0, isActive = True, otherFields = []\<rparr>"
proof -
  let ?id = "fst (generateSessionId activeSessions timestamp randomBytes)"
  have dec: "decimal timestamp = decimalDigits timestamp" using assms(1) by (simp add: decimal_def)
  have digits: "list_all isDigit (decimal timestamp)" "decimal timestamp \<noteq> []"
    using decimalDigits_digits [OF assms(1)] dec by simp_all
  have shape: "?id = ''wa_'' @ decimal timestamp @ ''_'' @ toHex randomBytes"
    by (rule generateSessionId_fst)
  have rest: "drop 3 ?id = decimal timestamp @ CHR ''_'' # toHex randomBytes"
    unfolding shape by simp
  have V: "isValidSessionId ?id"
    unfolding shape using digits assms(2)
    by (intro isValidSessionId_shape) (simp_all add: length_toHex toHex_hex)
  have T: "takeWhile isDigit (drop 3 ?id) = decimal timestamp"
    unfolding rest by (rule digits_then_underscore(1) [OF digits(1)])
  have H: "drop 1 (dropWhile isDigit (drop 3 ?id)) = toHex randomBytes"
    unfolding rest by (simp add: digits_then_underscore(2) [OF digits(1)])
  have L: "length (toHex randomBytes) = 16" using assms(2) by (simp add: length_toHex)
  have I: "0 \<le> timestamp' \<and> length randomBytes' = 8 \<and>
          fst (generateSessionId activeSessions' timestamp' randomBytes') = ?id
          \<longrightarrow> timestamp' = timestamp \<and> randomBytes' = randomBytes"
  proof (intro impI, elim conjE)
    assume p: "0 \<le> timestamp'" and same: "fst (generateSessionId activeSessions' timestamp' randomBytes') = ?id"
    have dec': "decimal timestamp' = decimalDigits timestamp'" using p by (simp add: decimal_def)
    have digits': "list_all isDigit (decimal timestamp')"
      using decimalDigits_digits [OF p] dec' by simp
    have rest': "drop 3 (fst (generateSessionId activeSessions' timestamp' randomBytes'))
                   = decimal timestamp' @ CHR ''_'' # toHex randomBytes'"
      unfolding generateSessionId_fst by simp
    have e: "decimal timestamp' @ CHR ''_'' # toHex randomBytes'
               = decimal timestamp @ CHR ''_'' # toHex randomBytes"
      using rest rest' same by simp
    have "takeWhile isDigit (decimal timestamp' @ CHR ''_'' # toHex randomBytes')
            = takeWhile isDigit (decimal timestamp @ CHR ''_'' # toHex randomBytes)"
      using e by simp
    then have d: "decimal timestamp' = decimal timestamp"
      by (simp add: digits_then_underscore(1) [OF digits(1)] digits_then_underscore(1) [OF digits'])
    then have t: "timestamp' = timestamp"
      using decimalDigits_inj [OF p assms(1)] dec dec' by simp
    have "toHex randomBytes' = toHex randomBytes" using e d by simp
    then have "randomBytes' = randomBytes" by (rule toHex_inj)
    with t show "timestamp' = timestamp \<and> randomBytes' = randomBytes" by simp
  qed
  show ?thesis
    by (intro conjI) (rule V, rule T, rule H, rule L, rule I, rule generateSessionId_entry)
qed

theorem generated_id_is_valid_witness:
  "(0::int) \<le> 1700000000000
   \<and> length [0x00, 0x11, 0x22, 0x33, 0x44, 0x55, 0x66, 0xff :: 8 word] = 8
   \<and> fst (generateSessionId [] 1700000000000 [0x00, 0x11, 0x22, 0x33, 0x44, 0x55, 0x66, 0xff])
       = ''wa_1700000000000_00112233445566ff''
   \<and> isValidSessionId ''wa_1700000000000_00112233445566ff''
   \<and> takeWhile isDigit (drop 3 ''wa_1700000000000_00112233445566ff'') = decimal 1700000000000
   \<and> length (toHex [0x00, 0x11, 0x22, 0x33, 0x44, 0x55, 0x66, 0xff]) = 16"
proof -
  have h1: "(0::int) \<le> 1700000000000" by simp
  have h2: "length [0x00, 0x11, 0x22, 0x33, 0x44, 0x55, 0x66, 0xff :: 8 word] = 8" by simp
  have v: "fst (generateSessionId [] 1700000000000 [0x00, 0x11, 0x22, 0x33, 0x44, 0x55, 0x66, 0xff])
       = ''wa_1700000000000_00112233445566ff''"
    by code_simp
  note T = generated_id_is_valid [OF h1 h2, where activeSessions = "[]"]
  have a: "isValidSessionId ''wa_1700000000000_00112233445566ff''"
    using T [THEN conjunct1] unfolding v .
  have b: "takeWhile isDigit (drop 3 ''wa_1700000000000_00112233445566ff'') = decimal 1700000000000"
    using T [THEN conjunct2, THEN conjunct1] unfolding v .
  have c: "length (toHex [0x00, 0x11, 0x22, 0x33, 0x44, 0x55, 0x66, 0xff]) = 16"
    using T [THEN conjunct2, THEN conjunct2, THEN conjunct2, THEN conjunct1] .
  show ?thesis by (intro conjI) (rule h1, rule h2, rule v, rule a, rule b, rule c)
qed

section \<open>The fallback selector\<close>

lemma table_categories:
  "detectResponseType ''hello there'' = Greeting"
  "detectResponseType ''thanks a lot'' = Thanks"
  "detectResponseType ''random statement'' = Default"
  by code_simp+

lemma firstMatchingCategory_detect: "firstMatchingCategory userMessage = Some (detectResponseType userMessage)"
  by (simp add: firstMatchingCategory_def categoryMatches_def categoryKeywords_def
      detectResponseType_def Let_def)

lemma fallbacks_nonempty: "fallbacks \<noteq> []"
  by (simp add: fallbacks_def)

text \<open>
  Claim C6, as the spec states it, fails for the fallback selector of the bot: it takes no
  text and has one pool; the reply it gives, whatever the message was (\<open>hello there\<close>,
  say), is not in the Greeting pool.
\<close>

theorem botFallbackResponse_counterexample:
  "botFallbackResponse 0
     = Some (''Sorry yaar, thoda issue ho gaya. Kya keh rahe the tum? '' @ [CHR 0xF0, CHR 0x9F, CHR 0xA4, CHR 0x94])
   \<and> ''Sorry yaar, thoda issue ho gaya. Kya keh rahe the tum? '' @ [CHR 0xF0, CHR 0x9F, CHR 0xA4, CHR 0x94]
       \<notin> set (fallbackResponses Greeting)"
  by (simp add: botFallbackResponse_def pickRandom_def randomIndex_def fallbacks_def fallbackResponses_def)

text \<open>
  Claim C6, amended. For every text, \<open>getFallbackResponse\<close> of \<open>GeminiAI\<close> puts the text
  into one category, the first in the order Greeting, Question, Thanks, Default whose
  substring rule matches, and whatever \<open>Math.random()\<close> gives (\<open>0 \<le> r < 1\<close>) it returns a
  text of that category's pool: it never fails and never returns \<open>undefined\<close>.
  \<open>hello there\<close> gets a reply of the Greeting pool, \<open>thanks a lot\<close> one of the Thanks pool,
  \<open>random statement\<close> one of the Default pool. \<open>getFallbackResponse\<close> of the bot takes no
  text and classifies nothing: it returns a text of its one pool, \<open>fallbacks\<close>.
\<close>

theorem fallback_reply_in_category_pool:
  assumes "0 \<le> r" and "r < 1"
  shows "firstMatchingCategory userMessage = Some (detectResponseType userMessage)
       \<and> (\<exists>reply. getFallbackResponse r userMessage = Some reply
             \<and> reply \<in> set (fallbackResponses (detectResponseType userMessage)))
       \<and> (\<exists>reply. getFallbackResponse r ''hello there'' = Some reply
             \<and> reply \<in> set (fallbackResponses Greeting))
       \<and> (\<exists>reply. getFallbackResponse r ''thanks a lot'' = Some reply
             \<and> reply \<in> set (fallbackResponses Thanks))
       \<and> (\<exists>reply. getFallbackResponse r ''random statement'' = Some reply
             \<and> reply \<in> set (fallbackResponses Default))
       \<and> (\<exists>reply. botFallbackResponse r = Some reply \<and> reply \<in> set fallbacks)"
  using getFallbackResponse_in_pool [OF assms, of userMessage]
    getFallbackResponse_in_pool [OF assms, of "''hello there''"]
    getFallbackResponse_in_pool [OF assms, of "''thanks a lot''"]
    getFallbackResponse_in_pool [OF assms, of "''random statement''"]
    pickRandom_in_pool [OF assms fallbacks_nonempty]
  by (simp add: table_categories firstMatchingCategory_detect botFallbackResponse_def)

theorem fallback_reply_in_category_pool_witness:
  "(0::real) \<le> 3 / 4 \<and> (3 / 4 :: real) < 1
   \<and> firstMatchingCategory ''this is it'' = Some Greeting
   \<and> getFallbackResponse (3 / 4) ''hello there''
        = Some (''Hi! What's up? '' @ [CHR 0xF0, CHR 0x9F, CHR 0x91, CHR 0x8B])
   \<and> (\<exists>reply. getFallbackResponse (3 / 4) ''thanks a lot'' = Some reply
         \<and> reply \<in> set (fallbackResponses Thanks))
   \<and> (\<exists>reply. botFallbackResponse (3 / 4) = Some reply \<and> reply \<in> set fallbacks)"
proof -
  have h1: "(0::real) \<le> 3 / 4" and h2: "(3 / 4 :: real) < 1" by simp_all
  have c: "detectResponseType ''this is it'' = Greeting" by code_simp
  have v: "getFallbackResponse (3 / 4) ''hello there''
        = Some (''Hi! What's up? '' @ [CHR 0xF0, CHR 0x9F, CHR 0x91, CHR 0x8B])"
    by (simp add: getFallbackResponse_def table_categories pickRandom_def randomIndex_def
        fallbackResponses_def)
  show ?thesis
    using v fallback_reply_in_category_pool [OF h1 h2, of "''this is it''"] by (simp add: c)
qed

section \<open>The language classifier\<close>

lemma detectLanguage_range: "detectLanguage message = Hinglish \<or> detectLanguage message = English"
  by (simp add: detectLanguage_def Let_def)

lemma codePoint_single:
  "codePoint [c] = (if (of_char c :: int) < 128 then of_char c else 0xFFFD)"
  by (simp add: codePoint_def)

lemma english_not_devanagari: "isEnglishChar ch \<Longrightarrow> \<not> isDevanagari ch"
proof -
  assume e: "isEnglishChar ch"
  show "\<not> isDevanagari ch"
  proof (cases "isSpace ch")
    case True
    then show ?thesis by (auto simp: isSpace_def isWhiteSpace_def isDevanagari_def)
  next
    case False
    with e obtain c where "ch = [c]"
      by (auto simp: isEnglishChar_def split: list.splits)
    then show ?thesis by (simp add: isDevanagari_def codePoint_single)
  qed
qed

lemma englishPattern_not_hindi: "englishPattern message \<Longrightarrow> \<not> hindiPattern message"
  by (auto simp: englishPattern_def hindiPattern_def list_all_iff list_ex_iff
      english_not_devanagari)

text \<open>
  Claim C7, as the spec states it, fails for the classifier of the bot, which decides by
  script: \<open>kaise ho yaar\<close> is made of ASCII letters and spaces, and the bot takes it for
  English.
\<close>

theorem botDetectLanguage_counterexample:
  "botDetectLanguage ''kaise ho yaar'' = English \<and> botDetectLanguage ''kaise ho yaar'' \<noteq> Hinglish"
proof -
  have "botDetectLanguage ''kaise ho yaar'' = English" by code_simp
  then show ?thesis by simp
qed

text \<open>
  Claim C7, amended. Both classifiers are functions of the text alone: they read no state
  and draw no random number, and their regular expressions have no \<open>g\<close> flag, so that
  \<open>test\<close> keeps no position between calls; the models have the text as their only
  argument, and equal texts get equal answers. \<open>detectLanguage\<close> of \<open>GeminiAI\<close> answers
  hinglish or english, hinglish for \<open>kaise ho yaar\<close> and english for \<open>How are you today\<close>.
  \<open>detectLanguage\<close> of the bot answers english for both texts. It answers hindi for every
  text that has a Devanagari character (U+0900 to U+097F), as the greeting \<open>namaste\<close>
  written in Devanagari; otherwise english for every text that is not empty and whose
  characters are all ASCII letters, digits, white space (that of the class \<open>\s\<close>, as the
  no-break space U+00A0) or the marks \<open>.,!?'"()-\<close>; otherwise hinglish, as for the empty
  text and for \<open>kya haal hai @home\<close>.
\<close>

theorem detectLanguage_table:
  "detectLanguage ''kaise ho yaar'' = Hinglish
   \<and> detectLanguage ''How are you today'' = English
   \<and> (detectLanguage message = Hinglish \<or> detectLanguage message = English)
   \<and> botDetectLanguage ''kaise ho yaar'' = English
   \<and> botDetectLanguage ''How are you today'' = English
   \<and> (ch \<in> set (characters message) \<and> isDevanagari ch \<longrightarrow> botDetectLanguage message = Hindi)
   \<and> (message \<noteq> [] \<and> (\<forall>ch \<in> set (characters message). isEnglishChar ch)
        \<longrightarrow> botDetectLanguage message = English)
   \<and> ((\<forall>ch \<in> set (characters message). \<not> isDevanagari ch) \<and>
       (message = [] \<or> (\<exists>ch \<in> set (characters message). \<not> isEnglishChar ch))
        \<longrightarrow> botDetectLanguage message = Hinglish)
   \<and> botDetectLanguage
        [CHR 0xE0, CHR 0xA4, CHR 0xA8, CHR 0xE0, CHR 0xA4, CHR 0xAE, CHR 0xE0, CHR 0xA4, CHR 0xB8,
         CHR 0xE0, CHR 0xA5, CHR 0x8D, CHR 0xE0, CHR 0xA4, CHR 0xA4, CHR 0xE0, CHR 0xA5, CHR 0x87]
        = Hindi
   \<and> botDetectLanguage (''hello'' @ [CHR 0xC2, CHR 0xA0] @ ''world'') = English
   \<and> botDetectLanguage ''kya haal hai @home'' = Hinglish
   \<and> botDetectLanguage [] = Hinglish
   \<and> (message = other \<longrightarrow> detectLanguage message = detectLanguage other
                             \<and> botDetectLanguage message = botDetectLanguage other)"
proof -
  have a: "detectLanguage ''kaise ho yaar'' = Hinglish" by code_simp
  have b: "detectLanguage ''How are you today'' = English" by code_simp
  have c: "botDetectLanguage ''kaise ho yaar'' = English" by code_simp
  have d: "botDetectLanguage ''How are you today'' = English" by code_simp
  have h: "ch \<in> set (characters message) \<and> isDevanagari ch \<longrightarrow> botDetectLanguage message = Hindi"
    by (auto simp: botDetectLanguage_def hindiPattern_def list_ex_iff)
  have e: "message \<noteq> [] \<and> (\<forall>ch \<in> set (characters message). isEnglishChar ch)
        \<longrightarrow> botDetectLanguage message = English"
    using englishPattern_not_hindi [of message]
    by (auto simp: botDetectLanguage_def englishPattern_def list_all_iff)
  have m: "(\<forall>ch \<in> set (characters message). \<not> isDevanagari ch) \<and>
       (message = [] \<or> (\<exists>ch \<in> set (characters message). \<not> isEnglishChar ch))
        \<longrightarrow> botDetectLanguage message = Hinglish"
    by (auto simp: botDetectLanguage_def englishPattern_def hindiPattern_def list_all_iff
        list_ex_iff)
  have n: "botDetectLanguage
        [CHR 0xE0, CHR 0xA4, CHR 0xA8, CHR 0xE0, CHR 0xA4, CHR 0xAE, CHR 0xE0, CHR 0xA4, CHR 0xB8,
         CHR 0xE0, CHR 0xA5, CHR 0x8D, CHR 0xE0, CHR 0xA4, CHR 0xA4, CHR 0xE0, CHR 0xA5, CHR 0x87]
        = Hindi" by code_simp
  have s: "botDetectLanguage (''hello'' @ [CHR 0xC2, CHR 0xA0] @ ''world'') = English"
    by code_simp
  have x: "botDetectLanguage ''kya haal hai @home'' = Hinglish" by code_simp
  have y: "botDetectLanguage [] = Hinglish" by code_simp
  have f: "message = other \<longrightarrow> detectLanguage message = detectLanguage other
                             \<and> botDetectLanguage message = botDetectLanguage other"
    by simp
  show ?thesis
    by (intro conjI) (rule a, rule b, rule detectLanguage_range, rule c, rule d, rule h, rule e,
        rule m, rule n, rule s, rule x, rule y, rule f)
qed

theorem detectLanguage_table_witness:
  "detectLanguage ''Thank you'' = English
   \<and> botDetectLanguage ''Thank you'' = English
   \<and> botDetectLanguage [CHR ''o'', CHR ''m'', CHR 0x20, CHR 0xE0, CHR 0xA5, CHR 0x90] = Hindi
   \<and> botDetectLanguage (''caf'' @ [CHR 0xC3, CHR 0xA9]) = Hinglish"
proof -
  have t: "detectLanguage ''Thank you'' = English" by code_simp
  have e: "''Thank you'' \<noteq> [] \<and> (\<forall>ch \<in> set (characters ''Thank you''). isEnglishChar ch)"
    by code_simp
  have h: "[CHR 0xE0, CHR 0xA5, CHR 0x90]
             \<in> set (characters [CHR ''o'', CHR ''m'', CHR 0x20, CHR 0xE0, CHR 0xA5, CHR 0x90])
           \<and> isDevanagari [CHR 0xE0, CHR 0xA5, CHR 0x90]"
    by code_simp
  have m: "(\<forall>ch \<in> set (characters (''caf'' @ [CHR 0xC3, CHR 0xA9])). \<not> isDevanagari ch) \<and>
       (''caf'' @ [CHR 0xC3, CHR 0xA9] = [] \<or>
        (\<exists>ch \<in> set (characters (''caf'' @ [CHR 0xC3, CHR 0xA9])). \<not> isEnglishChar ch))"
    by code_simp
  note T1 = detectLanguage_table [where message = "''Thank you''"]
  note T2 = detectLanguage_table
    [where ch = "[CHR 0xE0, CHR 0xA5, CHR 0x90]"
       and message = "[CHR ''o'', CHR ''m'', CHR 0x20, CHR 0xE0, CHR 0xA5, CHR 0x90]"]
  note T3 = detectLanguage_table [where message = "''caf'' @ [CHR 0xC3, CHR 0xA9]"]
  have r1: "botDetectLanguage ''Thank you'' = English" using T1 e by blast
  have r2: "botDetectLanguage [CHR ''o'', CHR ''m'', CHR 0x20, CHR 0xE0, CHR 0xA5, CHR 0x90] = Hindi"
    using T2 h by blast
  have r3: "botDetectLanguage (''caf'' @ [CHR 0xC3, CHR 0xA9]) = Hinglish"
    using T3 m by blast
  show ?thesis by (intro conjI) (rule t, rule r1, rule r2, rule r3)
qed

section \<open>The response cache\<close>

lemma cacheGet_after_set:
  "now < stored + stdTTL * 1000 \<Longrightarrow> cacheGet (cacheSet c stored k v) now k = Some v"
  by (simp add: cacheGet_def cacheSet_def)

lemma generateResponse_hit:
  assumes "cacheGet (cache g) (clock e) (''response_'' @ hashMessage userMessage) = Some v" "v \<noteq> []"
  shows "generateResponse g e userMessage n = (Some (addPersonalTouch (draws e 0) (draws e 1) v n), g)"
  using assms by (simp add: generateResponse_def Let_def)

lemma generateResponse_miss_then_hit:
  assumes miss: "\<not> truthy (cacheGet (cache g) (clock e1) (''response_'' @ hashMessage userMessage))"
    and ok: "completion e1 = Inr answer"
    and first: "generateResponse g e1 userMessage name1 = (Some reply1, g1)"
    and nonempty: "reply1 \<noteq> []"
    and ttl: "clock e2 < clockAfter e1 + stdTTL * 1000"
  shows "aiCalls g1 = aiCalls g + 1"
    and "generateResponse g1 e2 userMessage name2
           = (Some (addPersonalTouch (draws e2 0) (draws e2 1) reply1 name2), g1)"
proof -
  let ?k = "''response_'' @ hashMessage userMessage"
  let ?t = "addHumanVariations (draws e1) (cleanResponse answer) (detectLanguage userMessage)"
  let ?G = "g\<lparr>aiCalls := aiCalls g + 1, cache := cacheSet (cache g) (clockAfter e1) ?k ?t\<rparr>"
  have eq: "generateResponse g e1 userMessage name1 = (Some ?t, ?G)"
    using generateResponse_miss [OF miss, of name1] requestCompletion_success [OF ok, of g ?k userMessage]
    by (rule trans)
  have pe: "(Some reply1, g1) = (Some ?t, ?G)"
    using first eq by (rule trans [OF sym])
  have r: "reply1 = ?t" using pe by (simp only: prod.inject option.inject)
  have g1: "g1 = ?G" using pe by (simp only: prod.inject)
  show "aiCalls g1 = aiCalls g + 1" using g1 by simp
  have "cacheGet (cache g1) (clock e2) ?k = Some reply1"
    using g1 r ttl by (simp add: cacheGet_after_set)
  from generateResponse_hit [OF this nonempty]
  show "generateResponse g1 e2 userMessage name2
           = (Some (addPersonalTouch (draws e2 0) (draws e2 1) reply1 name2), g1)" .
qed

lemma addPersonalTouch_cases:
  "(n = ''Friend'' \<or> \<not> r1 < 0.1 \<longrightarrow> addPersonalTouch r1 r2 v n = v)
   \<and> (n \<noteq> ''Friend'' \<and> r1 < 0.1 \<and> 0 \<le> r2 \<and> r2 < 1 \<longrightarrow>
        (\<exists>greeting. greeting \<in> set [''yaar'', ''bro'', ''dude'', n]
           \<and> addPersonalTouch r1 r2 v n = greeting @ '', '' @ v))"
proof -
  have "\<exists>x. pickRandom r2 [''yaar'', ''bro'', ''dude'', n] = Some x \<and> x \<in> set [''yaar'', ''bro'', ''dude'', n]"
    if "0 \<le> r2" "r2 < 1"
    using pickRandom_in_pool [OF that, of "[''yaar'', ''bro'', ''dude'', n]"] by simp
  then show ?thesis by (auto simp: addPersonalTouch_def templateText_def)
qed

lemma first_call_stores_reply:
  "generateResponse \<lparr>cache = Map.empty, aiCalls = 0\<rparr> (aiEnvAt 100000 (Inr ''ok'') (1 / 2)) ''hi'' ''Ravi''
     = (Some ''ok'',
        \<lparr>cache = cacheSet Map.empty 102000 (''response_'' @ hashMessage ''hi'') ''ok'', aiCalls = 1\<rparr>)"
proof -
  have c: "cleanResponse ''ok'' = ''ok''" by code_simp
  show ?thesis
    by (simp add: generateResponse_def requestCompletion_def cacheGet_def aiEnvAt_def Let_def
        addHumanVariations_def c)
qed

text \<open>
  Claim C1, as the spec states it, fails: the first call asks the service and returns
  \<open>ok\<close>; the second call, with the same text and within the TTL, is served from the cache
  and returns \<open>yaar, ok\<close>, because \<open>addPersonalTouch\<close> is applied to every cached reply
  and here its draw falls below one tenth.
\<close>

theorem cached_reply_counterexample:
  "fst (generateResponse \<lparr>cache = Map.empty, aiCalls = 0\<rparr> (aiEnvAt 100000 (Inr ''ok'') (1 / 2)) ''hi'' ''Ravi'')
     = Some ''ok''
   \<and> clock (aiEnvAt 200000 (Inr ''ok'') 0) < clockAfter (aiEnvAt 100000 (Inr ''ok'') (1 / 2)) + stdTTL * 1000
   \<and> fst (generateResponse
        (snd (generateResponse \<lparr>cache = Map.empty, aiCalls = 0\<rparr> (aiEnvAt 100000 (Inr ''ok'') (1 / 2))
               ''hi'' ''Ravi''))
        (aiEnvAt 200000 (Inr ''ok'') 0) ''hi'' ''Ravi'')
     = Some ''yaar, ok''"
proof -
  have t: "addPersonalTouch 0 0 ''ok'' ''Ravi'' = ''yaar, ok''"
    by (simp add: addPersonalTouch_def pickRandom_def randomIndex_def templateText_def)
  have h: "cacheGet (cacheSet Map.empty 102000 (''response_'' @ hashMessage ''hi'') ''ok'') 200000
             (''response_'' @ hashMessage ''hi'') = Some ''ok''"
    by (rule cacheGet_after_set) (simp add: stdTTL_def)
  have h': "cacheGet
       (cache \<lparr>cache = cacheSet Map.empty 102000 (''response_'' @ hashMessage ''hi'') ''ok'', aiCalls = 1\<rparr>)
       (clock (aiEnvAt 200000 (Inr ''ok'') 0)) (''response_'' @ hashMessage ''hi'') = Some ''ok''"
    using h by (simp add: aiEnvAt_def)
  have ok: "''ok'' \<noteq> []" by simp
  have d: "draws (aiEnvAt 200000 (Inr ''ok'') 0) 0 = 0" "draws (aiEnvAt 200000 (Inr ''ok'') 0) 1 = 0"
    by (simp_all add: aiEnvAt_def)
  have s: "fst (generateResponse
        \<lparr>cache = cacheSet Map.empty 102000 (''response_'' @ hashMessage ''hi'') ''ok'', aiCalls = 1\<rparr>
        (aiEnvAt 200000 (Inr ''ok'') 0) ''hi'' ''Ravi'') = Some ''yaar, ok''"
    unfolding generateResponse_hit [OF h' ok, of "''Ravi''"] d t by simp
  have a: "fst (generateResponse \<lparr>cache = Map.empty, aiCalls = 0\<rparr> (aiEnvAt 100000 (Inr ''ok'') (1 / 2))
             ''hi'' ''Ravi'') = Some ''ok''"
    unfolding first_call_stores_reply by simp
  have b: "clock (aiEnvAt 200000 (Inr ''ok'') 0)
             < clockAfter (aiEnvAt 100000 (Inr ''ok'') (1 / 2)) + stdTTL * 1000"
    by (simp add: aiEnvAt_def stdTTL_def)
  have c: "fst (generateResponse
        (snd (generateResponse \<lparr>cache = Map.empty, aiCalls = 0\<rparr> (aiEnvAt 100000 (Inr ''ok'') (1 / 2))
               ''hi'' ''Ravi''))
        (aiEnvAt 200000 (Inr ''ok'') 0) ''hi'' ''Ravi'') = Some ''yaar, ok''"
    unfolding first_call_stores_reply snd_conv by (rule s)
  show ?thesis by (intro conjI a b c)
qed

text \<open>
  Claim C1, amended. When a call of \<open>generateResponse\<close> misses the cache, asks the
  completion service and obtains a reply that is not empty, then every call with the same
  text that reads the cache before the TTL (3600 s after the reply was stored) has
  passed is served from the cache: it does not ask the service (the state of the object,
  its count of requests included, is unchanged, whatever the service would have done),
  and it returns the first reply after \<open>addPersonalTouch\<close>. That is the first reply
  itself when the contact's name is \<open>Friend\<close> or the draw is at least one tenth, and
  otherwise the first reply behind one of the greetings \<open>yaar\<close>, \<open>bro\<close>, \<open>dude\<close> or the
  contact's name and a comma.
\<close>

theorem cached_reply_served_without_service:
  assumes "\<not> truthy (cacheGet (cache g) (clock e1) (''response_'' @ hashMessage userMessage))"
    and "completion e1 = Inr answer"
    and "generateResponse g e1 userMessage name1 = (Some reply1, g1)"
    and "reply1 \<noteq> []"
    and "clock e2 < clockAfter e1 + stdTTL * 1000"
  shows "aiCalls g1 = aiCalls g + 1
       \<and> snd (generateResponse g1 e2 userMessage name2) = g1
       \<and> aiCalls (snd (generateResponse g1 e2 userMessage name2)) = aiCalls g1
       \<and> fst (generateResponse g1 e2 userMessage name2)
           = Some (addPersonalTouch (draws e2 0) (draws e2 1) reply1 name2)
       \<and> (name2 = ''Friend'' \<or> \<not> draws e2 0 < 0.1 \<longrightarrow>
            fst (generateResponse g1 e2 userMessage name2) = Some reply1)
       \<and> (name2 \<noteq> ''Friend'' \<and> draws e2 0 < 0.1 \<and> 0 \<le> draws e2 1 \<and> draws e2 1 < 1 \<longrightarrow>
            (\<exists>greeting. greeting \<in> set [''yaar'', ''bro'', ''dude'', name2]
               \<and> fst (generateResponse g1 e2 userMessage name2) = Some (greeting @ '', '' @ reply1)))"
  using generateResponse_miss_then_hit(1) [OF assms]
    generateResponse_miss_then_hit(2) [OF assms, of name2]
    addPersonalTouch_cases [of name2 "draws e2 0" "draws e2 1" reply1]
  by simp

theorem cached_reply_served_without_service_witness:
  "aiCalls (snd (generateResponse \<lparr>cache = Map.empty, aiCalls = 0\<rparr> (aiEnvAt 100000 (Inr ''ok'') (1 / 2))
      ''hi'' ''Ravi'')) = 1
   \<and> generateResponse
        (snd (generateResponse \<lparr>cache = Map.empty, aiCalls = 0\<rparr> (aiEnvAt 100000 (Inr ''ok'') (1 / 2))
               ''hi'' ''Ravi''))
        (aiEnvAt 200000 (Inl CompletionFailed) (1 / 2)) ''hi'' ''Ravi''
      = (Some ''ok'',
         snd (generateResponse \<lparr>cache = Map.empty, aiCalls = 0\<rparr> (aiEnvAt 100000 (Inr ''ok'') (1 / 2))
               ''hi'' ''Ravi''))"
proof -
  let ?g = "\<lparr>cache = Map.empty, aiCalls = 0\<rparr>"
  let ?g1 = "\<lparr>cache = cacheSet Map.empty 102000 (''response_'' @ hashMessage ''hi'') ''ok'', aiCalls = 1\<rparr>"
  let ?e1 = "aiEnvAt 100000 (Inr ''ok'') (1 / 2)"
  let ?e2 = "aiEnvAt 200000 (Inl CompletionFailed) (1 / 2)"
  have h1: "\<not> truthy (cacheGet (cache ?g) (clock ?e1) (''response_'' @ hashMessage ''hi''))"
    by (simp add: cacheGet_def truthy_def)
  have h2: "completion ?e1 = Inr ''ok''" by (simp add: aiEnvAt_def)
  have h4: "''ok'' \<noteq> []" by simp
  have h5: "clock ?e2 < clockAfter ?e1 + stdTTL * 1000" by (simp add: aiEnvAt_def stdTTL_def)
  have d: "\<not> draws ?e2 0 < 0.1" by (simp add: aiEnvAt_def)
  note T = cached_reply_served_without_service [OF h1 h2 first_call_stores_reply h4 h5, of "''Ravi''"]
  have s2: "snd (generateResponse ?g1 ?e2 ''hi'' ''Ravi'') = ?g1"
    using T by (elim conjE)
  have f2: "fst (generateResponse ?g1 ?e2 ''hi'' ''Ravi'') = Some ''ok''"
    using T d by (elim conjE) blast
  have p: "generateResponse ?g1 ?e2 ''hi'' ''Ravi'' = (Some ''ok'', ?g1)"
    using s2 f2 by (simp only: prod_eq_iff fst_conv snd_conv)
  have c: "aiCalls ?g1 = 1" by simp
  show ?thesis unfolding first_call_stores_reply snd_conv by (intro conjI c p)
qed

end
